theory Spec2Isabelle
  imports Complex_Main
begin

section \<open>Python values\<close>

text \<open>
  Everything the resolvers handle is a value parsed from an upstream JSON body, or
  Python's \<open>None\<close>.  \<open>JNull\<close> is \<open>None\<close>: \<open>dict.get\<close> and \<open>cache_get\<close> return it
  for an absent key, exactly as they return a stored \<open>None\<close>.  A float is a finite double,
  taken at its exact rational value (the \<open>NaN\<close> and \<open>Infinity\<close> that \<open>json.loads\<close> also reads
  are left out); a parsed object is a dict, its keys looked up by \<open>map_of\<close>.
  Strings are lists of bytes.  \<open>str.upper\<close> and \<open>str.lower\<close> follow the Unicode case
  tables, which are no part of this program: every function that calls them takes them
  as its arguments \<open>upper\<close> and \<open>lower\<close>, and the general theorems hold for any such pair.
  \<open>ascii_upper\<close> and \<open>ascii_lower\<close> are what the two do on a string of ASCII characters;
  the example runs, whose strings are ASCII, are evaluated with them.
\<close>

datatype json =
    JNull
  | JBool bool
  | JInt int
  | JFloat rat
  | JStr string
  | JArr "json list"
  | JObj "(string \<times> json) list"

text \<open>Truth value testing, as \<open>if x:\<close> and \<open>not x\<close> do it.\<close>

fun truthy :: "json \<Rightarrow> bool" where
  "truthy JNull = False"
| "truthy (JBool b) = b"
| "truthy (JInt i) = (i \<noteq> 0)"
| "truthy (JFloat f) = (f \<noteq> 0)"
| "truthy (JStr s) = (s \<noteq> [])"
| "truthy (JArr xs) = (xs \<noteq> [])"
| "truthy (JObj kvs) = (kvs \<noteq> [])"

definition upper_char :: "char \<Rightarrow> char" where
  "upper_char c =
     (let n = (of_char c :: nat) in if 97 \<le> n \<and> n \<le> 122 then char_of (n - 32) else c)"

definition lower_char :: "char \<Rightarrow> char" where
  "lower_char c =
     (let n = (of_char c :: nat) in if 65 \<le> n \<and> n \<le> 90 then char_of (n + 32) else c)"

definition ascii_upper :: "string \<Rightarrow> string" where
  "ascii_upper s = map upper_char s"

definition ascii_lower :: "string \<Rightarrow> string" where
  "ascii_lower s = map lower_char s"

section \<open>The TTL cache\<close>

text \<open>
  \<open>CACHE: Dict[str, Dict[str, Any]]\<close>, each entry \<open>{"value": .., "expires_at": ..}\<close>.
  The reading of \<open>time.time()\<close> is an argument of both operations.
\<close>

record cache_entry =
  "value" :: json
  expires_at :: rat

type_synonym cache = "string \<rightharpoonup> cache_entry"

definition CACHE_TTL_SECONDS :: int where
  "CACHE_TTL_SECONDS = 60 * 15"

definition cache_get :: "rat \<Rightarrow> string \<Rightarrow> cache \<Rightarrow> json \<times> cache" where
  "cache_get time_now key C =
     (case C key of
        None \<Rightarrow> (JNull, C)
      | Some entry \<Rightarrow>
          if time_now > expires_at entry then (JNull, C(key := None))
          else (value entry, C))"

definition cache_set :: "rat \<Rightarrow> string \<Rightarrow> json \<Rightarrow> int \<Rightarrow> cache \<Rightarrow> cache" where
  "cache_set time_now key v ttl C =
     C(key \<mapsto> \<lparr>value = v, expires_at = time_now + of_int ttl\<rparr>)"

section \<open>Exceptions and formatted text\<close>

text \<open>
  An f-string is kept as the list of its parts: literal text, \<open>str()\<close> of a value,
  \<open>str()\<close> of an exception.  Nothing in the program branches on such a text.
\<close>

datatype py_error = AttributeError | KeyError | TypeError | ValueError | OverflowError

datatype frag = Lit string | Str json | StrExc exc
  and exc =
    HTTPException (status_code: nat) (detail: "frag list")
  | HTTPStatusError nat
  | RequestError string
  | PyError py_error

type_synonym url = "frag list"

section \<open>Operations on parsed values\<close>

text \<open>\<open>d.get(k)\<close>: \<open>AttributeError\<close> unless \<open>d\<close> is a dict.\<close>

definition py_get :: "json \<Rightarrow> string \<Rightarrow> exc + json" where
  "py_get d k =
     (case d of
        JObj kvs \<Rightarrow> Inr (case map_of kvs k of None \<Rightarrow> JNull | Some v \<Rightarrow> v)
      | _ \<Rightarrow> Inl (PyError AttributeError))"

text \<open>\<open>c[k]\<close> with a string key: \<open>KeyError\<close> on a dict without it, \<open>TypeError\<close> on anything else.\<close>

definition py_item :: "json \<Rightarrow> string \<Rightarrow> exc + json" where
  "py_item c k =
     (case c of
        JObj kvs \<Rightarrow> (case map_of kvs k of None \<Rightarrow> Inl (PyError KeyError) | Some v \<Rightarrow> Inr v)
      | _ \<Rightarrow> Inl (PyError TypeError))"

text \<open>\<open>a or b\<close>.\<close>

definition py_or :: "json \<Rightarrow> json \<Rightarrow> json" where
  "py_or a b = (if truthy a then a else b)"

text \<open>What \<open>for c in xs\<close> runs over: a dict yields its keys, a string its characters.\<close>

definition py_iter :: "json \<Rightarrow> exc + json list" where
  "py_iter xs =
     (case xs of
        JArr cs \<Rightarrow> Inr cs
      | JObj kvs \<Rightarrow> Inr (map (\<lambda>kv. JStr (fst kv)) kvs)
      | JStr s \<Rightarrow> Inr (map (\<lambda>c. JStr [c]) s)
      | _ \<Rightarrow> Inl (PyError TypeError))"

section \<open>The upstream providers\<close>

text \<open>
  What one \<open>client.get(url)\<close>, \<open>resp.raise_for_status()\<close>, \<open>resp.json()\<close> comes to:
  \<open>client.get\<close> raises \<open>httpx.RequestError\<close>, or \<open>raise_for_status\<close> raises
  \<open>httpx.HTTPStatusError\<close> for the status code of the response, or the body is not JSON,
  or the body parses.  A reply also says how far the clock moved while it was awaited.
\<close>

datatype response = NoResponse string | ErrorStatus nat | BadBody | Body json

record reply =
  response :: response
  elapsed :: rat

type_synonym upstream = "url \<Rightarrow> reply"

text \<open>
  The state a resolver runs in: the process-wide \<open>CACHE\<close>, the reading of
  \<open>time.time()\<close>, and the requests sent so far (kept to count them).
\<close>

record world =
  CACHE :: cache
  now :: rat
  sent :: "url list"

definition fetch :: "response \<Rightarrow> exc + json" where
  "fetch r =
     (case r of
        NoResponse m \<Rightarrow> Inl (RequestError m)
      | ErrorStatus code \<Rightarrow> Inl (HTTPStatusError code)
      | BadBody \<Rightarrow> Inl (PyError ValueError)
      | Body data \<Rightarrow> Inr data)"

definition http_get :: "upstream \<Rightarrow> url \<Rightarrow> world \<Rightarrow> (exc + json) \<times> world" where
  "http_get net u w =
     (fetch (response (net u)),
      w\<lparr>now := now w + elapsed (net u), sent := sent w @ [u]\<rparr>)"

definition FIAT_API_BASE_URL :: string where
  "FIAT_API_BASE_URL = ''https://open.er-api.com/v6/latest/''"

definition COINGECKO_API_BASE_URL :: string where
  "COINGECKO_API_BASE_URL = ''https://api.coingecko.com/api/v3/''"

definition CRYPTO_SYMBOL_MAP :: "(string \<times> string) list" where
  "CRYPTO_SYMBOL_MAP =
     [(''BTC'', ''bitcoin''), (''ETH'', ''ethereum''), (''USDT'', ''tether''),
      (''BNB'', ''binancecoin''), (''ADA'', ''cardano''), (''SOL'', ''solana''),
      (''DOGE'', ''dogecoin''), (''XRP'', ''ripple''), (''DOT'', ''polkadot''),
      (''LTC'', ''litecoin''), (''USDC'', ''usd-coin''), (''DAI'', ''dai''),
      (''TRX'', ''tron''), (''SHIB'', ''shiba-inu''), (''AVAX'', ''avalanche-2''),
      (''LINK'', ''chainlink''), (''UNI'', ''uniswap''), (''BCH'', ''bitcoin-cash''),
      (''MATIC'', ''polygon''), (''HBAR'', ''hedera-hashgraph'')]"

section \<open>The fiat rate resolver\<close>

definition fiat_key :: "string \<Rightarrow> string \<Rightarrow> string" where
  "fiat_key base_u target_u = ''fiat:'' @ base_u @ '':'' @ target_u"

definition fiat_url :: "string \<Rightarrow> url" where
  "fiat_url base_u = [Lit FIAT_API_BASE_URL, Lit base_u]"

text \<open>Lines 84 to 99: the checks on the parsed body, inside the \<open>try\<close>.\<close>

definition fiat_rate_of :: "json \<Rightarrow> string \<Rightarrow> exc + json" where
  "fiat_rate_of data target_u =
     (case py_get data ''result'' of
        Inl e \<Rightarrow> Inl e
      | Inr res \<Rightarrow>
          if res \<noteq> JStr ''success'' then
            (case py_get data ''error'' of
               Inl e \<Rightarrow> Inl e
             | Inr err \<Rightarrow>
                 Inl (HTTPException 502
                   [Lit ''ExchangeRate-API failed: '', Str (py_or err (JStr ''Unknown error''))]))
          else
            (case py_get data ''rates'' of
               Inl e \<Rightarrow> Inl e
             | Inr rates \<Rightarrow>
                 if \<not> truthy rates then
                   Inl (HTTPException 502
                     [Lit ''Unexpected response structure from ExchangeRate-API''])
                 else
                   (case py_get rates target_u of
                      Inl e \<Rightarrow> Inl e
                    | Inr rate \<Rightarrow>
                        if rate = JNull then
                          Inl (HTTPException 400 [Lit ''Invalid currency code: '', Lit target_u])
                        else Inr rate)))"

text \<open>Lines 101 to 106: the \<open>except\<close> clauses, tried in this order.\<close>

definition fiat_except :: "exc \<Rightarrow> exc" where
  "fiat_except e =
     (case e of
        HTTPStatusError code \<Rightarrow>
          HTTPException 502
            [Lit ''Failed to fetch fiat rates (HTTP Error '', Str (JInt (int code)), Lit '')'']
      | RequestError m \<Rightarrow>
          HTTPException 504
            [Lit ''Timeout or network error connecting to ExchangeRate-API: '', StrExc e]
      | _ \<Rightarrow>
          HTTPException 500
            [Lit ''Internal server error while processing fiat rates: '', StrExc e])"

definition get_fiat_rate ::
  "(string \<Rightarrow> string) \<Rightarrow> upstream \<Rightarrow> string \<Rightarrow> string \<Rightarrow> world \<Rightarrow> (exc + json) \<times> world" where
  "get_fiat_rate upper net base target w =
     (let base_u = upper base;
          target_u = upper target;
          cache_key = fiat_key base_u target_u;
          (cached_rate, C1) = cache_get (now w) cache_key (CACHE w);
          w1 = w\<lparr>CACHE := C1\<rparr>
      in if cached_rate \<noteq> JNull then (Inr cached_rate, w1)
         else
           (let (r, w2) = http_get net (fiat_url base_u) w1
            in case (case r of Inl e \<Rightarrow> Inl e | Inr data \<Rightarrow> fiat_rate_of data target_u) of
                 Inl e \<Rightarrow> (Inl (fiat_except e), w2)
               | Inr rate \<Rightarrow>
                   (Inr rate,
                    w2\<lparr>CACHE := cache_set (now w2) cache_key rate CACHE_TTL_SECONDS (CACHE w2)\<rparr>)))"

section \<open>The crypto price resolver\<close>

definition crypto_key :: "string \<Rightarrow> string \<Rightarrow> string" where
  "crypto_key symbol_upper vs_currency_lower =
     ''crypto:'' @ symbol_upper @ '':'' @ vs_currency_lower"

definition list_cache_key :: string where
  "list_cache_key = ''coingecko:coins:list''"

definition price_url :: "json \<Rightarrow> string \<Rightarrow> url" where
  "price_url coin_id vs_currency_lower =
     [Lit COINGECKO_API_BASE_URL, Lit ''simple/price?ids='', Str coin_id,
      Lit ''&vs_currencies='', Lit vs_currency_lower]"

definition coins_list_url :: url where
  "coins_list_url = [Lit COINGECKO_API_BASE_URL, Lit ''coins/list'']"

text \<open>
  \<open>data.get(coin_id, {}).get(vs_currency_lower)\<close>.  The keys of a parsed object are
  strings, so a \<open>coin_id\<close> that is not a string finds none of them and gets the default;
  a list or a dict cannot be hashed.
\<close>

definition price_of :: "json \<Rightarrow> json \<Rightarrow> string \<Rightarrow> exc + json" where
  "price_of data coin_id vs_currency_lower =
     (case data of
        JObj kvs \<Rightarrow>
          (case coin_id of
             JStr cid \<Rightarrow>
               py_get (case map_of kvs cid of None \<Rightarrow> JObj [] | Some v \<Rightarrow> v) vs_currency_lower
           | JArr _ \<Rightarrow> Inl (PyError TypeError)
           | JObj _ \<Rightarrow> Inl (PyError TypeError)
           | _ \<Rightarrow> py_get (JObj []) vs_currency_lower)
      | _ \<Rightarrow> Inl (PyError AttributeError))"

text \<open>Lines 127 to 131, and again 153 to 157: one price request and the reading of its body.\<close>

definition fetch_price ::
  "upstream \<Rightarrow> json \<Rightarrow> string \<Rightarrow> world \<Rightarrow> (exc + json) \<times> world" where
  "fetch_price net coin_id vs_currency_lower w =
     (let (r, w1) = http_get net (price_url coin_id vs_currency_lower) w
      in case r of
           Inl e \<Rightarrow> (Inl e, w1)
         | Inr data \<Rightarrow> (price_of data coin_id vs_currency_lower, w1))"

text \<open>
  Line 147: \<open>next((c["id"] for c in coins_list if c["symbol"].upper() == symbol_upper), None)\<close>.
  The generator is lazy: entries after the first match are never looked at.
\<close>

fun first_match :: "(string \<Rightarrow> string) \<Rightarrow> json list \<Rightarrow> string \<Rightarrow> exc + json" where
  "first_match upper [] symbol_upper = Inr JNull"
| "first_match upper (c # cs) symbol_upper =
     (case py_item c ''symbol'' of
        Inl e \<Rightarrow> Inl e
      | Inr field \<Rightarrow>
          (case field of
             JStr s \<Rightarrow>
               if upper s = symbol_upper then py_item c ''id''
               else first_match upper cs symbol_upper
           | _ \<Rightarrow> Inl (PyError AttributeError)))"

definition find_coin_id :: "(string \<Rightarrow> string) \<Rightarrow> json \<Rightarrow> string \<Rightarrow> exc + json" where
  "find_coin_id upper coins_list symbol_upper =
     (case py_iter coins_list of
        Inl e \<Rightarrow> Inl e
      | Inr cs \<Rightarrow> first_match upper cs symbol_upper)"

definition no_price :: exc where
  "no_price = HTTPException 502 [Lit ''CoinGecko returned no price for requested vs_currency'']"

definition not_found :: "string \<Rightarrow> exc" where
  "not_found symbol_upper =
     HTTPException 404
       [Lit ''Crypto symbol '', Lit [CHR 0x27], Lit symbol_upper, Lit [CHR 0x27],
        Lit '' not found on CoinGecko'']"

text \<open>
  Lines 138 to 145: the catalog, from the cache under its fixed key, or fetched and then
  cached for 24 hours.
\<close>

definition get_coins_list :: "upstream \<Rightarrow> world \<Rightarrow> (exc + json) \<times> world" where
  "get_coins_list net w =
     (let (cached_list, C1) = cache_get (now w) list_cache_key (CACHE w);
          w1 = w\<lparr>CACHE := C1\<rparr>
      in if cached_list = JNull then
           (case http_get net coins_list_url w1 of
              (Inl e, w2) \<Rightarrow> (Inl e, w2)
            | (Inr fetched, w2) \<Rightarrow>
                (Inr fetched,
                 w2\<lparr>CACHE := cache_set (now w2) list_cache_key fetched (3600 * 24) (CACHE w2)\<rparr>))
         else (Inr cached_list, w1))"

text \<open>
  How the \<open>try\<close> block is left without an exception: by the \<open>return\<close> of line 134, the
  price already cached, or by running off its end with \<open>price\<close> set.
\<close>

datatype flow = Return json | Fallthrough json

text \<open>
  Lines 125 to 160.  \<open>coin_id\<close> is not assigned between the tests of lines 126 and 137,
  so the two are the branches of one test.
\<close>

definition crypto_try ::
  "(string \<Rightarrow> string) \<Rightarrow> upstream \<Rightarrow> json \<Rightarrow> string \<Rightarrow> string \<Rightarrow> string \<Rightarrow> world \<Rightarrow> (exc + flow) \<times> world" where
  "crypto_try upper net coin_id symbol_upper vs_currency_lower cache_key w =
     (if truthy coin_id then
        (case fetch_price net coin_id vs_currency_lower w of
           (Inl e, w1) \<Rightarrow> (Inl e, w1)
         | (Inr price, w1) \<Rightarrow>
             if price \<noteq> JNull then
               (Inr (Return price),
                w1\<lparr>CACHE := cache_set (now w1) cache_key price CACHE_TTL_SECONDS (CACHE w1)\<rparr>)
             else (Inl no_price, w1))
      else
        (case get_coins_list net w of
           (Inl e, w2) \<Rightarrow> (Inl e, w2)
         | (Inr coins_list, w2) \<Rightarrow>
             (case find_coin_id upper coins_list symbol_upper of
                Inl e \<Rightarrow> (Inl e, w2)
              | Inr found \<Rightarrow>
                  if \<not> truthy found then (Inl (not_found symbol_upper), w2)
                  else
                    (case fetch_price net found vs_currency_lower w2 of
                       (Inl e, w3) \<Rightarrow> (Inl e, w3)
                     | (Inr price, w3) \<Rightarrow>
                         if price = JNull then (Inl no_price, w3)
                         else (Inr (Fallthrough price), w3)))))"

text \<open>Lines 162 to 170: the \<open>except\<close> clauses, tried in this order.\<close>

definition crypto_except :: "exc \<Rightarrow> exc" where
  "crypto_except e =
     (case e of
        HTTPStatusError code \<Rightarrow>
          if code = 429 then
            HTTPException 429
              [Lit ''Rate limit exceeded on CoinGecko. Increase cache TTL or upgrade CoinGecko plan.'']
          else
            HTTPException 502
              [Lit ''Failed to fetch crypto price (HTTP Error '', Str (JInt (int code)), Lit '')'']
      | RequestError m \<Rightarrow>
          HTTPException 504 [Lit ''Timeout or network error connecting to CoinGecko: '', StrExc e]
      | _ \<Rightarrow>
          HTTPException 500
            [Lit ''Internal server error while processing crypto rates: '', StrExc e])"

text \<open>\<open>CRYPTO_SYMBOL_MAP.get(symbol_upper)\<close>.\<close>

definition symbol_map_get :: "string \<Rightarrow> json" where
  "symbol_map_get symbol_upper =
     (case map_of CRYPTO_SYMBOL_MAP symbol_upper of None \<Rightarrow> JNull | Some cid \<Rightarrow> JStr cid)"

definition get_crypto_price ::
  "(string \<Rightarrow> string) \<Rightarrow> (string \<Rightarrow> string) \<Rightarrow> upstream \<Rightarrow> string \<Rightarrow> string \<Rightarrow> world \<Rightarrow> (exc + json) \<times> world" where
  "get_crypto_price upper lower net symbol vs_currency w =
     (let symbol_upper = upper symbol;
          vs_currency_lower = lower vs_currency;
          coin_id = symbol_map_get symbol_upper;
          cache_key = crypto_key symbol_upper vs_currency_lower;
          (cached, C1) = cache_get (now w) cache_key (CACHE w);
          w1 = w\<lparr>CACHE := C1\<rparr>
      in if cached \<noteq> JNull then (Inr cached, w1)
         else
           (case crypto_try upper net coin_id symbol_upper vs_currency_lower cache_key w1 of
              (Inl e, w2) \<Rightarrow> (Inl (crypto_except e), w2)
            | (Inr (Return price), w2) \<Rightarrow> (Inr price, w2)
            | (Inr (Fallthrough price), w2) \<Rightarrow>
                (Inr price,
                 w2\<lparr>CACHE := cache_set (now w2) cache_key price CACHE_TTL_SECONDS (CACHE w2)\<rparr>)))"

section \<open>Floats\<close>

text \<open>
  Python's \<open>float\<close> is the IEEE 754 binary64 format.  A finite float is its exact rational
  value (the two zeros are not told apart); \<open>binary64\<close> rounds a rational to the nearest
  float, ties to the even significand: 53 bits above the subnormal range, multiples of
  \<open>2 ^ -1074\<close> inside it, infinity from \<open>2 ^ 1024\<close> on.
\<close>

datatype pyfloat = Finite rat | PosInf | NegInf | NaN

function bit_length :: "int \<Rightarrow> int" where
  "bit_length n = (if n \<le> 0 then 0 else 1 + bit_length (n div 2))"
  by auto
termination
  by (relation "measure nat") auto

declare bit_length.simps [simp del]

definition pow2 :: "int \<Rightarrow> rat" where
  "pow2 n = (if 0 \<le> n then 2 ^ nat n else 1 / 2 ^ nat (- n))"

text \<open>The exponent of a positive rational: \<open>pow2 (ilog2 a) \<le> a < pow2 (ilog2 a + 1)\<close>.\<close>

definition ilog2 :: "rat \<Rightarrow> int" where
  "ilog2 a =
     (let (p, q) = quotient_of a;
          n = bit_length p - bit_length q
      in if pow2 n \<le> a then n else n - 1)"

definition round_half_even :: "rat \<Rightarrow> int" where
  "round_half_even x =
     (let f = \<lfloor>x\<rfloor>; d = x - of_int f
      in if d < 1 / 2 then f else if 1 / 2 < d then f + 1 else if even f then f else f + 1)"

definition binary64 :: "rat \<Rightarrow> pyfloat" where
  "binary64 x =
     (if x = 0 then Finite 0
      else
        (let a = \<bar>x\<bar>;
             e = ilog2 a;
             q = max (e - 52) (- 1074);
             r = of_int (round_half_even (a / pow2 q)) * pow2 q
         in if 1024 \<le> ilog2 r then (if 0 < x then PosInf else NegInf)
            else Finite (sgn x * r)))"

text \<open>\<open>x * y\<close> on floats.\<close>

fun float_mul :: "pyfloat \<Rightarrow> pyfloat \<Rightarrow> pyfloat" where
  "float_mul (Finite a) (Finite b) = binary64 (a * b)"
| "float_mul NaN _ = NaN"
| "float_mul _ NaN = NaN"
| "float_mul (Finite a) PosInf = (if a = 0 then NaN else if 0 < a then PosInf else NegInf)"
| "float_mul (Finite a) NegInf = (if a = 0 then NaN else if 0 < a then NegInf else PosInf)"
| "float_mul PosInf (Finite b) = (if b = 0 then NaN else if 0 < b then PosInf else NegInf)"
| "float_mul NegInf (Finite b) = (if b = 0 then NaN else if 0 < b then NegInf else PosInf)"
| "float_mul PosInf PosInf = PosInf"
| "float_mul PosInf NegInf = NegInf"
| "float_mul NegInf PosInf = NegInf"
| "float_mul NegInf NegInf = PosInf"

text \<open>
  \<open>round(x, ndigits)\<close> on a float, for the small positive \<open>ndigits\<close> of this program:
  CPython converts \<open>x\<close> to the correctly rounded decimal with \<open>ndigits\<close> places (ties to
  even, on the exact value) and that decimal back to the nearest float; an infinity or
  a NaN rounds to itself.
\<close>

definition py_round :: "pyfloat \<Rightarrow> nat \<Rightarrow> pyfloat" where
  "py_round x ndigits =
     (case x of
        Finite v \<Rightarrow> binary64 (of_int (round_half_even (v * 10 ^ ndigits)) / 10 ^ ndigits)
      | _ \<Rightarrow> x)"

text \<open>
  \<open>amount * rate\<close>, \<open>amount\<close> a float and \<open>rate\<close> whatever the resolver returned: an int
  (or a bool) is converted to a float first, \<open>OverflowError\<close> if it is too large; anything
  that is not a number is a \<open>TypeError\<close>.
\<close>

definition py_mul :: "pyfloat \<Rightarrow> json \<Rightarrow> exc + pyfloat" where
  "py_mul amount rate =
     (case rate of
        JFloat v \<Rightarrow> Inr (float_mul amount (Finite v))
      | JInt i \<Rightarrow>
          (case binary64 (of_int i) of
             Finite v \<Rightarrow> Inr (float_mul amount (Finite v))
           | _ \<Rightarrow> Inl (PyError OverflowError))
      | JBool b \<Rightarrow> Inr (float_mul amount (Finite (if b then 1 else 0)))
      | _ \<Rightarrow> Inl (PyError TypeError))"

section \<open>The endpoints\<close>

text \<open>
  The dicts that \<open>/convert\<close> and \<open>/crypto\<close> return, their keys prefixed with the name of
  the endpoint (\<open>fiat_from\<close> is the key \<open>"from"\<close>).  The resolvers raise nothing but
  \<open>HTTPException\<close>, which the handlers pass on; the product and the rounding stand outside
  their \<open>try\<close>, so an exception there leaves the handler as it is.
\<close>

record fiat_conversion =
  fiat_from :: string
  fiat_to :: string
  fiat_amount :: pyfloat
  fiat_rate :: json
  fiat_converted_amount :: pyfloat

record crypto_conversion =
  crypto_symbol :: string
  crypto_vs_currency :: string
  crypto_amount :: pyfloat
  crypto_price_per_unit :: json
  crypto_converted_amount :: pyfloat

definition reraise :: "exc \<Rightarrow> exc" where
  "reraise e = (case e of HTTPException st d \<Rightarrow> e | _ \<Rightarrow> HTTPException 500 [StrExc e])"

definition convert ::
  "(string \<Rightarrow> string) \<Rightarrow> upstream \<Rightarrow> string \<Rightarrow> string \<Rightarrow> pyfloat \<Rightarrow> world \<Rightarrow> (exc + fiat_conversion) \<times> world" where
  "convert upper net from_currency to_currency amount w =
     (case get_fiat_rate upper net from_currency to_currency w of
        (Inl e, w1) \<Rightarrow> (Inl (reraise e), w1)
      | (Inr rate, w1) \<Rightarrow>
          (case py_mul amount rate of
             Inl e \<Rightarrow> (Inl e, w1)
           | Inr product \<Rightarrow>
               (Inr \<lparr>fiat_from = upper from_currency, fiat_to = upper to_currency,
                     fiat_amount = amount, fiat_rate = rate,
                     fiat_converted_amount = py_round product 8\<rparr>,
                w1)))"

definition crypto_convert ::
  "(string \<Rightarrow> string) \<Rightarrow> (string \<Rightarrow> string) \<Rightarrow> upstream \<Rightarrow> string \<Rightarrow> string \<Rightarrow> pyfloat \<Rightarrow> world \<Rightarrow> (exc + crypto_conversion) \<times> world" where
  "crypto_convert upper lower net symbol vs_currency amount w =
     (case get_crypto_price upper lower net symbol vs_currency w of
        (Inl e, w1) \<Rightarrow> (Inl (reraise e), w1)
      | (Inr price, w1) \<Rightarrow>
          (case py_mul amount price of
             Inl e \<Rightarrow> (Inl e, w1)
           | Inr product \<Rightarrow>
               (Inr \<lparr>crypto_symbol = upper symbol, crypto_vs_currency = lower vs_currency,
                     crypto_amount = amount, crypto_price_per_unit = price,
                     crypto_converted_amount = py_round product 8\<rparr>,
                w1)))"

section \<open>Sequences of calls\<close>

text \<open>
  Calls of \<open>get_crypto_price\<close> one after the other, each with the clock reading it starts
  at and the upstream as it answers during that call.
\<close>

fun crypto_calls ::
  "(string \<Rightarrow> string) \<Rightarrow> (string \<Rightarrow> string) \<Rightarrow> (rat \<times> upstream \<times> string \<times> string) list \<Rightarrow> world \<Rightarrow> world" where
  "crypto_calls upper lower [] w = w"
| "crypto_calls upper lower ((t, net, symbol, vs) # rest) w =
     crypto_calls upper lower rest (snd (get_crypto_price upper lower net symbol vs (w\<lparr>now := t\<rparr>)))"

section \<open>Example runs\<close>

text \<open>A process that has just started, its cache empty, at clock reading 1000.\<close>

definition cold_start :: world where
  "cold_start = \<lparr>CACHE = Map.empty, now = 1000, sent = []\<rparr>"

text \<open>The float that the literal \<open>0.9\<close> denotes.\<close>

definition float_0_9 :: rat where
  "float_0_9 = 8106479329266893 / 9007199254740992"

text \<open>
  The fiat provider answering every request with a table holding only EUR at 0.9, after
  half a second.
\<close>

definition usd_table :: upstream where
  "usd_table u =
     \<lparr>response = Body (JObj [(''result'', JStr ''success''),
                              (''rates'', JObj [(''EUR'', JFloat float_0_9)])]),
      elapsed = 1 / 2\<rparr>"

text \<open>A cache holding one entry, written at time 0 with a TTL of one second.\<close>

definition one_entry :: cache where
  "one_entry = cache_set 0 ''k'' (JInt 5) 1 Map.empty"

text \<open>
  The crypto provider: a catalog of one coin, a price for it in usd, an empty answer for
  bitcoin in usd, and status 429 for every other request.  Each reply takes a second.
\<close>

definition foo_coin :: json where
  "foo_coin = JObj [(''id'', JStr ''foo-coin''), (''symbol'', JStr ''foo'')]"

definition foo_catalog :: json where
  "foo_catalog = JArr [foo_coin]"

definition coingecko :: upstream where
  "coingecko u =
     (if u = coins_list_url then \<lparr>response = Body foo_catalog, elapsed = 1\<rparr>
      else if u = price_url (JStr ''foo-coin'') ''usd'' then
        \<lparr>response = Body (JObj [(''foo-coin'', JObj [(''usd'', JInt 7)])]), elapsed = 1\<rparr>
      else if u = price_url (JStr ''bitcoin'') ''usd'' then
        \<lparr>response = Body (JObj []), elapsed = 1\<rparr>
      else \<lparr>response = ErrorStatus 429, elapsed = 1\<rparr>)"

text \<open>A provider that is down.\<close>

definition unreachable :: upstream where
  "unreachable u = \<lparr>response = NoResponse ''timed out'', elapsed = 10\<rparr>"

text \<open>Two later calls: one after the price entry has expired, one while the provider is down.\<close>

definition later_calls :: "(rat \<times> upstream \<times> string \<times> string) list" where
  "later_calls = [(2000, coingecko, ''foo'', ''usd''), (50000, unreachable, ''FOO'', ''eur'')]"

text \<open>
  A crypto provider serving a given catalog, and to every price request the same table:
  a price for the coin \<open>foo-coin\<close> and one for the empty id, both in usd.
\<close>

definition price_table :: json where
  "price_table = JObj [('''', JObj [(''usd'', JInt 3)]), (''foo-coin'', JObj [(''usd'', JInt 7)])]"

definition catalog_server :: "json \<Rightarrow> upstream" where
  "catalog_server catalog u =
     (if u = coins_list_url then \<lparr>response = Body catalog, elapsed = 1\<rparr>
      else \<lparr>response = Body price_table, elapsed = 1\<rparr>)"

text \<open>
  Three catalogs holding the coin \<open>foo\<close>: after an entry without an id and before an entry
  that is no object; after an entry without a symbol; after an entry with the same symbol
  and an empty id.
\<close>

definition ragged_catalog :: json where
  "ragged_catalog = JArr [JObj [(''symbol'', JStr ''bar'')], foo_coin, JInt 17]"

definition no_symbol_catalog :: json where
  "no_symbol_catalog = JArr [JObj [(''id'', JStr ''x'')], foo_coin]"

definition empty_id_catalog :: json where
  "empty_id_catalog = JArr [JObj [(''id'', JStr ''''), (''symbol'', JStr ''FOO'')], foo_coin]"

section \<open>Letter case\<close>

lemma upper_usd: "ascii_upper ''usd'' = ''USD''"
  by code_simp

lemma upper_xyz: "ascii_upper ''xyz'' = ''XYZ''"
  by code_simp

lemma upper_btc: "ascii_upper ''btc'' = ''BTC''"
  by code_simp

lemma lower_usd: "ascii_lower ''usd'' = ''usd''"
  by code_simp

section \<open>The cache\<close>

text \<open>
  C4, as the claim states it, fails on the boundary: a read exactly at \<open>t0 + ttl\<close> still
  returns the value and keeps the entry, because \<open>cache_get\<close> tests
  \<open>time.time() > expires_at\<close>.
\<close>

theorem cache_expiry_boundary_counterexample:
  "(1 :: rat) \<ge> 0 + of_int 1 \<and> fst (cache_get 1 ''k'' one_entry) = JInt 5
     \<and> snd (cache_get 1 ''k'' one_entry) ''k'' \<noteq> None"
  by (simp add: one_entry_def cache_get_def cache_set_def)

text \<open>
  C4, amended.  \<open>cache_set(k, v, ttl)\<close> at time \<open>t0\<close> stores \<open>v\<close> with
  \<open>expires_at = t0 + ttl\<close>.  In every later cache \<open>C'\<close> whose entry for \<open>k\<close> is still that
  one (no set for \<open>k\<close> in between), \<open>cache_get(k)\<close> at a time \<open>t \<le> t0 + ttl\<close> returns \<open>v\<close>
  and leaves the cache as it is; at a time \<open>t > t0 + ttl\<close> it returns \<open>None\<close> and removes
  the entry, after which every read of \<open>k\<close> returns \<open>None\<close>.
\<close>

theorem cache_ttl_invariant:
  "cache_set t0 k v ttl C k = Some \<lparr>value = v, expires_at = t0 + of_int ttl\<rparr> \<and>
   (\<forall>C'. C' k = cache_set t0 k v ttl C k \<longrightarrow>
      (t \<le> t0 + of_int ttl \<longrightarrow> cache_get t k C' = (v, C')) \<and>
      (t > t0 + of_int ttl \<longrightarrow>
         cache_get t k C' = (JNull, C'(k := None)) \<and>
         (\<forall>t'. cache_get t' k (C'(k := None)) = (JNull, C'(k := None)))))"
  by (auto simp: cache_get_def cache_set_def)

theorem cache_ttl_invariant_witness:
  "fst (cache_get 1 ''k'' one_entry) = JInt 5 \<and> fst (cache_get 2 ''k'' one_entry) = JNull
     \<and> snd (cache_get 2 ''k'' one_entry) ''k'' = None"
  using cache_ttl_invariant [of 0 "''k''" "JInt 5" 1 Map.empty 1]
    cache_ttl_invariant [of 0 "''k''" "JInt 5" 1 Map.empty 2]
  by (simp add: one_entry_def)

section \<open>The fiat rate resolver: errors\<close>

text \<open>
  C1.  Base \<open>usd\<close>, target \<open>xyz\<close>, the upstream reporting success with a table that has no
  \<open>XYZ\<close>: line 99 raises the 400 inside the \<open>try\<close>, the clause \<open>except Exception\<close> of line 105
  catches it, and the caller receives status 500 with the 400 quoted in its text.
\<close>

theorem fiat_invalid_code_status:
  "fst (get_fiat_rate ascii_upper usd_table ''usd'' ''xyz'' cold_start) =
     Inl (HTTPException 500
            [Lit ''Internal server error while processing fiat rates: '',
             StrExc (HTTPException 400 [Lit ''Invalid currency code: '', Lit ''XYZ''])])"
  by (simp add: get_fiat_rate_def upper_usd upper_xyz cold_start_def usd_table_def cache_get_def
      http_get_def fetch_def fiat_rate_of_def py_get_def fiat_except_def fiat_key_def)

section \<open>The fiat rate resolver: the two paths\<close>

lemma fiat_rate_of_not_None: "fiat_rate_of data t = Inr rate \<Longrightarrow> rate \<noteq> JNull"
  by (auto simp: fiat_rate_of_def split: sum.splits if_splits)

lemma get_fiat_rate_miss:
  assumes "fst (cache_get (now w) (fiat_key (upper base) (upper target)) (CACHE w)) = JNull"
  shows "get_fiat_rate upper net base target w =
     (let w2 = w\<lparr>CACHE := snd (cache_get (now w) (fiat_key (upper base) (upper target)) (CACHE w)),
                  now := now w + elapsed (net (fiat_url (upper base))),
                  sent := sent w @ [fiat_url (upper base)]\<rparr>
      in case (case fetch (response (net (fiat_url (upper base)))) of
                 Inl e \<Rightarrow> Inl e | Inr data \<Rightarrow> fiat_rate_of data (upper target)) of
           Inl e \<Rightarrow> (Inl (fiat_except e), w2)
         | Inr rate \<Rightarrow>
             (Inr rate,
              w2\<lparr>CACHE := cache_set (now w2) (fiat_key (upper base) (upper target)) rate
                     CACHE_TTL_SECONDS (CACHE w2)\<rparr>))"
  using assms by (simp add: get_fiat_rate_def Let_def case_prod_beta http_get_def)

lemma get_fiat_rate_hit:
  assumes "C = CACHE w"
    and "C (fiat_key (upper base) (upper target)) = Some \<lparr>value = v, expires_at = T\<rparr>"
    and "now w \<le> T" and "v \<noteq> JNull"
  shows "get_fiat_rate upper net base target w = (Inr v, w)"
  using assms by (simp add: get_fiat_rate_def Let_def cache_get_def)

text \<open>
  C7.  A call of \<open>get_fiat_rate(base, target)\<close> that misses the cache and succeeds sends
  exactly one request and stores the rate at the clock reading \<open>now w1\<close> it ends with.  Any
  later call for the pair in any letter case, in a world \<open>w2\<close> whose entry for the pair is
  still that one and whose clock is at most \<open>now w1 +\<close> the default TTL, returns the same
  rate and changes nothing: it sends no request, whatever the upstream \<open>net'\<close> would answer.
\<close>

theorem fiat_second_call_is_cache_hit:
  assumes miss: "fst (cache_get (now w) (fiat_key (upper base) (upper target)) (CACHE w)) = JNull"
    and ok: "get_fiat_rate upper net base target w = (Inr rate, w1)"
    and same: "upper base' = upper base" "upper target' = upper target"
    and kept: "CACHE w2 (fiat_key (upper base) (upper target)) =
               CACHE w1 (fiat_key (upper base) (upper target))"
    and within: "now w2 \<le> now w1 + of_int CACHE_TTL_SECONDS"
  shows "sent w1 = sent w @ [fiat_url (upper base)] \<and>
         get_fiat_rate upper net' base' target' w2 = (Inr rate, w2)"
proof -
  from ok obtain data where
    d: "fetch (response (net (fiat_url (upper base)))) = Inr data"
      "fiat_rate_of data (upper target) = Inr rate"
    by (auto simp: get_fiat_rate_miss [where upper = upper, OF miss] Let_def split: sum.splits)
  from ok d have w1: "sent w1 = sent w @ [fiat_url (upper base)]"
    "CACHE w1 (fiat_key (upper base) (upper target)) =
       Some \<lparr>value = rate, expires_at = now w1 + of_int CACHE_TTL_SECONDS\<rparr>"
    by (auto simp: get_fiat_rate_miss [where upper = upper, OF miss] Let_def cache_set_def)
  have "get_fiat_rate upper net' base' target' w2 = (Inr rate, w2)"
    by (rule get_fiat_rate_hit [where upper = upper, OF refl _ within fiat_rate_of_not_None [OF d(2)]])
       (simp add: same kept w1)
  with w1 show ?thesis by simp
qed

theorem fiat_second_call_is_cache_hit_witness:
  "fst (get_fiat_rate ascii_upper usd_table ''usd'' ''eur'' cold_start) = Inr (JFloat float_0_9) \<and>
   sent (snd (get_fiat_rate ascii_upper usd_table ''usd'' ''eur'' cold_start)) = [fiat_url ''USD''] \<and>
   get_fiat_rate ascii_upper unreachable ''USD'' ''Eur''
       ((snd (get_fiat_rate ascii_upper usd_table ''usd'' ''eur'' cold_start))\<lparr>now := 1900\<rparr>) =
     (Inr (JFloat float_0_9), (snd (get_fiat_rate ascii_upper usd_table ''usd'' ''eur'' cold_start))\<lparr>now := 1900\<rparr>)"
proof -
  let ?w1 = "snd (get_fiat_rate ascii_upper usd_table ''usd'' ''eur'' cold_start)"
  have miss: "fst (cache_get (now cold_start) (fiat_key (ascii_upper ''usd'') (ascii_upper ''eur''))
                (CACHE cold_start)) = JNull"
    by code_simp
  have r: "fst (get_fiat_rate ascii_upper usd_table ''usd'' ''eur'' cold_start) = Inr (JFloat float_0_9)"
    by code_simp
  then have ok: "get_fiat_rate ascii_upper usd_table ''usd'' ''eur'' cold_start = (Inr (JFloat float_0_9), ?w1)"
    by (simp add: prod_eq_iff)
  have same: "ascii_upper ''USD'' = ascii_upper ''usd''" "ascii_upper ''Eur'' = ascii_upper ''eur''"
    by code_simp+
  have t: "now ?w1 = 2001 / 2"
    by code_simp
  have within: "now (?w1\<lparr>now := 1900\<rparr>) \<le> now ?w1 + of_int CACHE_TTL_SECONDS"
    by (simp add: t CACHE_TTL_SECONDS_def)
  have kept: "CACHE (?w1\<lparr>now := 1900\<rparr>) (fiat_key (ascii_upper ''usd'') (ascii_upper ''eur'')) =
              CACHE ?w1 (fiat_key (ascii_upper ''usd'') (ascii_upper ''eur''))"
    by simp
  from fiat_second_call_is_cache_hit
      [where upper = ascii_upper and net' = unreachable, OF miss ok same kept within] r
  show ?thesis by (simp add: cold_start_def upper_usd)
qed

section \<open>The crypto price resolver: its stages\<close>

lemma fetch_price_fst:
  "fst (fetch_price net c vs w) =
     (case fetch (response (net (price_url c vs))) of
        Inl e \<Rightarrow> Inl e | Inr data \<Rightarrow> price_of data c vs)"
  by (simp add: fetch_price_def http_get_def split: sum.splits)

lemma fetch_price_snd:
  "snd (fetch_price net c vs w) =
     w\<lparr>now := now w + elapsed (net (price_url c vs)), sent := sent w @ [price_url c vs]\<rparr>"
  by (simp add: fetch_price_def http_get_def split: sum.splits)

lemma get_coins_list_fst:
  "fst (get_coins_list net w) =
     (if fst (cache_get (now w) list_cache_key (CACHE w)) = JNull
      then fetch (response (net coins_list_url))
      else Inr (fst (cache_get (now w) list_cache_key (CACHE w))))"
  by (simp add: get_coins_list_def http_get_def case_prod_beta Let_def split: sum.splits)

lemma get_coins_list_sent:
  "sent (snd (get_coins_list net w)) =
     sent w @ (if fst (cache_get (now w) list_cache_key (CACHE w)) = JNull
               then [coins_list_url] else [])"
  by (simp add: get_coins_list_def http_get_def case_prod_beta Let_def split: sum.splits)

lemma get_coins_list_now:
  "now (snd (get_coins_list net w)) =
     (if fst (cache_get (now w) list_cache_key (CACHE w)) = JNull
      then now w + elapsed (net coins_list_url) else now w)"
  by (simp add: get_coins_list_def http_get_def case_prod_beta Let_def split: sum.splits)

lemma get_coins_list_CACHE:
  "CACHE (snd (get_coins_list net w)) =
     (if fst (cache_get (now w) list_cache_key (CACHE w)) = JNull
      then (case fetch (response (net coins_list_url)) of
              Inl e \<Rightarrow> snd (cache_get (now w) list_cache_key (CACHE w))
            | Inr fetched \<Rightarrow>
                cache_set (now w + elapsed (net coins_list_url)) list_cache_key fetched (3600 * 24)
                  (snd (cache_get (now w) list_cache_key (CACHE w))))
      else snd (cache_get (now w) list_cache_key (CACHE w)))"
  by (simp add: get_coins_list_def http_get_def case_prod_beta Let_def split: sum.splits)

lemma static_id_nonempty: "map_of CRYPTO_SYMBOL_MAP k = Some cid \<Longrightarrow> cid \<noteq> []"
  by (auto simp: CRYPTO_SYMBOL_MAP_def split: if_splits)

lemma crypto_try_fast:
  assumes "truthy c"
  shows "crypto_try upper net c su vs key w =
     (case fst (fetch_price net c vs w) of
        Inl e \<Rightarrow> (Inl e, snd (fetch_price net c vs w))
      | Inr price \<Rightarrow>
          if price \<noteq> JNull then
            (Inr (Return price),
             (snd (fetch_price net c vs w))
               \<lparr>CACHE := cache_set (now (snd (fetch_price net c vs w))) key price
                   CACHE_TTL_SECONDS (CACHE (snd (fetch_price net c vs w)))\<rparr>)
          else (Inl no_price, snd (fetch_price net c vs w)))"
  using assms by (simp add: crypto_try_def split: prod.splits sum.splits)

lemma crypto_try_fallback:
  assumes "\<not> truthy c"
  shows "crypto_try upper net c su vs key w =
     (case fst (get_coins_list net w) of
        Inl e \<Rightarrow> (Inl e, snd (get_coins_list net w))
      | Inr coins_list \<Rightarrow>
          (case find_coin_id upper coins_list su of
             Inl e \<Rightarrow> (Inl e, snd (get_coins_list net w))
           | Inr found \<Rightarrow>
               if \<not> truthy found then (Inl (not_found su), snd (get_coins_list net w))
               else
                 (case fst (fetch_price net found vs (snd (get_coins_list net w))) of
                    Inl e \<Rightarrow> (Inl e, snd (fetch_price net found vs (snd (get_coins_list net w))))
                  | Inr price \<Rightarrow>
                      if price = JNull
                      then (Inl no_price, snd (fetch_price net found vs (snd (get_coins_list net w))))
                      else (Inr (Fallthrough price),
                            snd (fetch_price net found vs (snd (get_coins_list net w)))))))"
  using assms by (simp add: crypto_try_def split: prod.splits sum.splits)

lemma get_crypto_price_miss:
  assumes "fst (cache_get (now w) (crypto_key (upper symbol) (lower vs)) (CACHE w)) = JNull"
    and "T = crypto_try upper net (symbol_map_get (upper symbol)) (upper symbol) (lower vs)
               (crypto_key (upper symbol) (lower vs))
               (w\<lparr>CACHE := snd (cache_get (now w) (crypto_key (upper symbol) (lower vs)) (CACHE w))\<rparr>)"
  shows "get_crypto_price upper lower net symbol vs w =
     (case fst T of
        Inl e \<Rightarrow> (Inl (crypto_except e), snd T)
      | Inr (Return price) \<Rightarrow> (Inr price, snd T)
      | Inr (Fallthrough price) \<Rightarrow>
          (Inr price,
           (snd T)\<lparr>CACHE := cache_set (now (snd T)) (crypto_key (upper symbol) (lower vs)) price
                  CACHE_TTL_SECONDS (CACHE (snd T))\<rparr>))"
  using assms
  by (simp add: get_crypto_price_def Let_def case_prod_beta split: sum.splits flow.splits)

lemma get_crypto_price_hit:
  assumes "fst (cache_get (now w) (crypto_key (upper symbol) (lower vs)) (CACHE w)) \<noteq> JNull"
  shows "get_crypto_price upper lower net symbol vs w =
     (Inr (fst (cache_get (now w) (crypto_key (upper symbol) (lower vs)) (CACHE w))), w)"
proof -
  from assms have "snd (cache_get (now w) (crypto_key (upper symbol) (lower vs)) (CACHE w)) = CACHE w"
    by (auto simp: cache_get_def split: option.splits if_splits)
  with assms show ?thesis
    by (simp add: get_crypto_price_def Let_def case_prod_beta)
qed

section \<open>The crypto price resolver: a mapped symbol without a price\<close>

text \<open>
  C2, as the claim states it, fails: \<open>BTC\<close> is in the static table, the price response
  holds no price, the catalog is not cached, and the call ends in an error after the one
  price request, with no catalog request sent.
\<close>

theorem mapped_symbol_no_fallback_counterexample:
  "map_of CRYPTO_SYMBOL_MAP (ascii_upper ''btc'') = Some ''bitcoin'' \<and>
   response (coingecko (price_url (JStr ''bitcoin'') ''usd'')) = Body (JObj []) \<and>
   price_of (JObj []) (JStr ''bitcoin'') ''usd'' = Inr JNull \<and>
   CACHE cold_start list_cache_key = None \<and>
   fst (get_crypto_price ascii_upper ascii_lower coingecko ''btc'' ''usd'' cold_start) =
     Inl (HTTPException 500
            [Lit ''Internal server error while processing crypto rates: '', StrExc no_price]) \<and>
   sent (snd (get_crypto_price ascii_upper ascii_lower coingecko ''btc'' ''usd'' cold_start)) =
     [price_url (JStr ''bitcoin'') ''usd''] \<and>
   coins_list_url \<notin> set (sent (snd (get_crypto_price ascii_upper ascii_lower coingecko ''btc'' ''usd'' cold_start)))"
  by code_simp

text \<open>
  C2, amended.  When the uppercased symbol is in the static table, the price key misses
  the cache, and the response to the fast-path request holds no price for the pair, the
  resolver does not enter the fallback: the call ends in an error, the price request is
  the only request sent, and the cache is as the price key's read left it (the catalog
  is neither fetched nor cached).
\<close>

theorem mapped_symbol_no_fallback:
  assumes mapped: "map_of CRYPTO_SYMBOL_MAP (upper symbol) = Some cid"
    and miss: "fst (cache_get (now w) (crypto_key (upper symbol) (lower vs)) (CACHE w)) = JNull"
    and resp: "response (net (price_url (JStr cid) (lower vs))) = Body data"
    and noprice: "price_of data (JStr cid) (lower vs) = Inr JNull"
  shows "\<exists>st d. get_crypto_price upper lower net symbol vs w =
     (Inl (HTTPException st d),
      w\<lparr>CACHE := snd (cache_get (now w) (crypto_key (upper symbol) (lower vs)) (CACHE w)),
        now := now w + elapsed (net (price_url (JStr cid) (lower vs))),
        sent := sent w @ [price_url (JStr cid) (lower vs)]\<rparr>)"
proof -
  have t: "truthy (JStr cid)" using static_id_nonempty [OF mapped] by simp
  show ?thesis
    by (simp add: get_crypto_price_miss [where upper = upper and lower = lower, OF miss refl] symbol_map_get_def mapped
        crypto_try_fast [OF t] fetch_price_fst fetch_price_snd resp fetch_def noprice
        crypto_except_def no_price_def)
qed

theorem mapped_symbol_no_fallback_witness:
  "map_of CRYPTO_SYMBOL_MAP (ascii_upper ''btc'') = Some ''bitcoin'' \<and>
   (\<exists>st d. get_crypto_price ascii_upper ascii_lower coingecko ''btc'' ''usd'' cold_start =
      (Inl (HTTPException st d),
       cold_start\<lparr>CACHE := snd (cache_get (now cold_start) (crypto_key ''BTC'' ''usd'')
                                   (CACHE cold_start)),
         now := now cold_start + elapsed (coingecko (price_url (JStr ''bitcoin'') ''usd'')),
         sent := sent cold_start @ [price_url (JStr ''bitcoin'') ''usd'']\<rparr>))"
proof -
  have mapped: "map_of CRYPTO_SYMBOL_MAP (ascii_upper ''btc'') = Some ''bitcoin''"
    by code_simp
  have miss: "fst (cache_get (now cold_start) (crypto_key (ascii_upper ''btc'') (ascii_lower ''usd''))
                (CACHE cold_start)) = JNull"
    by code_simp
  have resp: "response (coingecko (price_url (JStr ''bitcoin'') (ascii_lower ''usd''))) = Body (JObj [])"
    by code_simp
  have noprice: "price_of (JObj []) (JStr ''bitcoin'') (ascii_lower ''usd'') = Inr JNull"
    by code_simp
  from mapped_symbol_no_fallback
      [where upper = ascii_upper and lower = ascii_lower and symbol = "''btc''"
        and cid = "''bitcoin''" and w = cold_start and vs = "''usd''" and net = coingecko
        and data = "JObj []", OF mapped miss resp noprice] mapped
  show ?thesis by (simp add: upper_btc lower_usd)
qed

section \<open>The crypto price resolver: an unknown symbol\<close>

text \<open>
  C3.  Symbol \<open>bar\<close>, not in the static table, the catalog holding only \<open>foo\<close>: line 150
  raises the 404 inside the \<open>try\<close>, the clause \<open>except Exception\<close> of line 169 catches it,
  and the caller receives status 500 with the 404 quoted in its text.
\<close>

theorem unknown_symbol_status:
  "fst (get_crypto_price ascii_upper ascii_lower coingecko ''bar'' ''usd'' cold_start) =
     Inl (HTTPException 500
            [Lit ''Internal server error while processing crypto rates: '',
             StrExc (not_found ''BAR'')])"
  by code_simp

section \<open>The crypto price resolver: rate limiting\<close>

lemma crypto_try_status:
  assumes u: "u \<in> set (drop (length (sent w)) (sent (snd (crypto_try upper net c su vs key w))))"
    and st: "response (net u) = ErrorStatus code"
  shows "fst (crypto_try upper net c su vs key w) = Inl (HTTPStatusError code)"
proof (cases "truthy c")
  case True
  have "sent (snd (crypto_try upper net c su vs key w)) = sent w @ [price_url c vs]"
    by (simp add: crypto_try_fast [OF True] fetch_price_snd split: sum.splits)
  with u have "u = price_url c vs" by simp
  with st have "fst (fetch_price net c vs w) = Inl (HTTPStatusError code)"
    by (simp add: fetch_price_fst fetch_def)
  then show ?thesis by (simp add: crypto_try_fast [OF True])
next
  case False
  let ?g = "get_coins_list net w"
  note eq = crypto_try_fallback [OF False, where upper = upper and net = net and su = su and vs = vs and key = key and w = w]
  show ?thesis
  proof (cases "fst ?g")
    case (Inl e)
    then have "sent (snd (crypto_try upper net c su vs key w)) = sent (snd ?g)"
      by (simp add: eq)
    with u have "u = coins_list_url \<and> fst (cache_get (now w) list_cache_key (CACHE w)) = JNull"
      by (simp add: get_coins_list_sent split: if_splits)
    with st have "fst ?g = Inl (HTTPStatusError code)"
      by (simp add: get_coins_list_fst fetch_def)
    then show ?thesis by (simp add: eq)
  next
    case (Inr cl)
    have nocat: "u \<notin> set (drop (length (sent w)) (sent (snd ?g)))"
    proof
      assume "u \<in> set (drop (length (sent w)) (sent (snd ?g)))"
      then have "u = coins_list_url \<and> fst (cache_get (now w) list_cache_key (CACHE w)) = JNull"
        by (simp add: get_coins_list_sent split: if_splits)
      with st have "fst ?g = Inl (HTTPStatusError code)"
        by (simp add: get_coins_list_fst fetch_def)
      with Inr show False by simp
    qed
    show ?thesis
    proof (cases "find_coin_id upper cl su")
      case (Inl e)
      with Inr have "sent (snd (crypto_try upper net c su vs key w)) = sent (snd ?g)"
        by (simp add: eq)
      with u nocat show ?thesis by simp
    next
      case found: (Inr found)
      show ?thesis
      proof (cases "truthy found")
        case False
        with Inr found have "sent (snd (crypto_try upper net c su vs key w)) = sent (snd ?g)"
          by (simp add: eq)
        with u nocat show ?thesis by simp
      next
        case True
        with Inr found have
          "sent (snd (crypto_try upper net c su vs key w)) = sent (snd ?g) @ [price_url found vs]"
          by (simp add: eq fetch_price_snd split: sum.splits)
        with u nocat have "u = price_url found vs"
          by (auto simp: get_coins_list_sent split: if_splits)
        with st have "fst (fetch_price net found vs (snd ?g)) = Inl (HTTPStatusError code)"
          by (simp add: fetch_price_fst fetch_def)
        with Inr found True show ?thesis by (simp add: eq)
      qed
    qed
  qed
qed

text \<open>
  C5.  If a request sent by this call of \<open>get_crypto_price\<close> (the price request of the
  fast path or of the fallback, or the catalog request) is answered with status 429, the
  caller receives the \<open>HTTPException\<close> with status 429, not the 502 of the other statuses
  and not the 500 of the catch-all: the clauses of one \<open>try\<close> do not catch what another
  of them raises.
\<close>

theorem crypto_rate_limit:
  assumes req: "u \<in> set (drop (length (sent w)) (sent (snd (get_crypto_price upper lower net symbol vs w))))"
    and limited: "response (net u) = ErrorStatus 429"
  shows "fst (get_crypto_price upper lower net symbol vs w) =
     Inl (HTTPException 429
       [Lit ''Rate limit exceeded on CoinGecko. Increase cache TTL or upgrade CoinGecko plan.''])"
proof (cases "fst (cache_get (now w) (crypto_key (upper symbol) (lower vs)) (CACHE w)) = JNull")
  case False
  from req show ?thesis
    by (simp add: get_crypto_price_hit [where upper = upper and lower = lower, OF False])
next
  case True
  define T where "T = crypto_try upper net (symbol_map_get (upper symbol)) (upper symbol) (lower vs)
               (crypto_key (upper symbol) (lower vs))
               (w\<lparr>CACHE := snd (cache_get (now w) (crypto_key (upper symbol) (lower vs)) (CACHE w))\<rparr>)"
  note eq = get_crypto_price_miss [where upper = upper and lower = lower, OF True T_def]
  have "sent (snd (get_crypto_price upper lower net symbol vs w)) = sent (snd T)"
    by (simp add: eq split: sum.splits flow.splits)
  with req have "u \<in> set (drop (length (sent w)) (sent (snd T)))"
    by simp
  then have "fst T = Inl (HTTPStatusError 429)"
    unfolding T_def by (intro crypto_try_status [where u = u and net = net] limited) simp
  then show ?thesis
    by (simp add: eq crypto_except_def)
qed

theorem crypto_rate_limit_witness:
  "price_url (JStr ''ethereum'') ''usd''
     \<in> set (sent (snd (get_crypto_price ascii_upper ascii_lower coingecko ''eth'' ''usd'' cold_start))) \<and>
   response (coingecko (price_url (JStr ''ethereum'') ''usd'')) = ErrorStatus 429 \<and>
   fst (get_crypto_price ascii_upper ascii_lower coingecko ''eth'' ''usd'' cold_start) =
     Inl (HTTPException 429
       [Lit ''Rate limit exceeded on CoinGecko. Increase cache TTL or upgrade CoinGecko plan.''])"
proof -
  have h1: "price_url (JStr ''ethereum'') ''usd''
     \<in> set (drop (length (sent cold_start))
              (sent (snd (get_crypto_price ascii_upper ascii_lower coingecko ''eth'' ''usd'' cold_start))))"
    by code_simp
  have h2: "response (coingecko (price_url (JStr ''ethereum'') ''usd'')) = ErrorStatus 429"
    by code_simp
  have h3: "price_url (JStr ''ethereum'') ''usd''
     \<in> set (sent (snd (get_crypto_price ascii_upper ascii_lower coingecko ''eth'' ''usd'' cold_start)))"
    by code_simp
  from crypto_rate_limit [OF h1 h2] h2 h3 show ?thesis by simp
qed

section \<open>What a call writes to the cache\<close>

lemma key_distinct: "crypto_key a b \<noteq> list_cache_key"
  by (simp add: crypto_key_def list_cache_key_def)

lemma cache_get_other: "k' \<noteq> k \<Longrightarrow> snd (cache_get t k C) k' = C k'"
  by (simp add: cache_get_def split: option.splits)

lemma cache_get_fst_cong: "C' k = C k \<Longrightarrow> fst (cache_get t k C') = fst (cache_get t k C)"
  by (simp add: cache_get_def split: option.splits)

lemma cache_get_miss_stays:
  "fst (cache_get t k C) = JNull \<Longrightarrow> C' k = snd (cache_get t k C) k \<Longrightarrow> fst (cache_get t' k C') = JNull"
  by (auto simp: cache_get_def split: option.splits if_splits)

lemma fetch_price_CACHE: "CACHE (snd (fetch_price net c vs w)) = CACHE w"
  by (simp add: fetch_price_snd)

lemma get_coins_list_other:
  "k \<noteq> list_cache_key \<Longrightarrow> CACHE (snd (get_coins_list net w)) k = CACHE w k"
  by (simp add: get_coins_list_CACHE cache_get_other cache_set_def split: sum.splits)

lemma crypto_try_fallback_CACHE:
  assumes "\<not> truthy c"
  shows "CACHE (snd (crypto_try upper net c su vs key w)) = CACHE (snd (get_coins_list net w))"
  using assms
  by (simp add: crypto_try_fallback fetch_price_CACHE split: sum.splits)

lemma cache_get_same_or_purged: "snd (cache_get t k C) k' = C k' \<or> snd (cache_get t k C) k' = None"
  by (simp add: cache_get_def split: option.splits)

lemma fetch_Inr: "fetch r = Inr d \<longleftrightarrow> r = Body d"
  by (simp add: fetch_def split: response.splits)

lemma TTL_900: "CACHE_TTL_SECONDS = 900"
  by (simp add: CACHE_TTL_SECONDS_def)

lemma get_fiat_rate_writes:
  "CACHE (snd (get_fiat_rate upper net base target w)) k = CACHE w k \<or>
   CACHE (snd (get_fiat_rate upper net base target w)) k = None \<or>
   (k = fiat_key (upper base) (upper target) \<and>
    (\<exists>rate. fst (get_fiat_rate upper net base target w) = Inr rate \<and>
       CACHE (snd (get_fiat_rate upper net base target w)) k =
         Some \<lparr>value = rate, expires_at = now (snd (get_fiat_rate upper net base target w)) + 900\<rparr>))"
proof (cases "fst (cache_get (now w) (fiat_key (upper base) (upper target)) (CACHE w)) = JNull")
  case True
  show ?thesis
    using cache_get_same_or_purged [of "now w" "fiat_key (upper base) (upper target)" "CACHE w" k]
    by (auto simp: get_fiat_rate_miss [where upper = upper, OF True] Let_def cache_set_def TTL_900 split: sum.splits)
next
  case False
  then show ?thesis
    using cache_get_same_or_purged [of "now w" "fiat_key (upper base) (upper target)" "CACHE w" k]
    by (auto simp: get_fiat_rate_def Let_def case_prod_beta)
qed

lemma get_coins_list_writes:
  "CACHE (snd (get_coins_list net w)) k = CACHE w k \<or>
   CACHE (snd (get_coins_list net w)) k = None \<or>
   (k = list_cache_key \<and>
    (\<exists>catalog. response (net coins_list_url) = Body catalog \<and>
       CACHE (snd (get_coins_list net w)) k =
         Some \<lparr>value = catalog, expires_at = now w + elapsed (net coins_list_url) + 86400\<rparr>))"
  using cache_get_same_or_purged [of "now w" list_cache_key "CACHE w" k]
  by (auto simp: get_coins_list_CACHE cache_set_def fetch_Inr split: sum.splits)

lemma crypto_try_writes:
  "CACHE (snd (crypto_try upper net c su vs key w)) k = CACHE w k \<or>
   CACHE (snd (crypto_try upper net c su vs key w)) k = None \<or>
   (k = key \<and>
    (\<exists>price. fst (crypto_try upper net c su vs key w) = Inr (Return price) \<and>
       CACHE (snd (crypto_try upper net c su vs key w)) k =
         Some \<lparr>value = price, expires_at = now (snd (crypto_try upper net c su vs key w)) + 900\<rparr>)) \<or>
   (k = list_cache_key \<and>
    (\<exists>catalog. response (net coins_list_url) = Body catalog \<and>
       CACHE (snd (crypto_try upper net c su vs key w)) k =
         Some \<lparr>value = catalog, expires_at = now w + elapsed (net coins_list_url) + 86400\<rparr>))"
proof (cases "truthy c")
  case True
  show ?thesis
    by (auto simp: crypto_try_fast [OF True] fetch_price_snd cache_set_def TTL_900 split: sum.splits)
next
  case False
  show ?thesis
    using get_coins_list_writes [of net w k]
    by (auto simp: crypto_try_fallback_CACHE [OF False])
qed

lemma get_crypto_price_writes:
  "CACHE (snd (get_crypto_price upper lower net symbol vs w)) k = CACHE w k \<or>
   CACHE (snd (get_crypto_price upper lower net symbol vs w)) k = None \<or>
   (k = crypto_key (upper symbol) (lower vs) \<and>
    (\<exists>price. fst (get_crypto_price upper lower net symbol vs w) = Inr price \<and>
       CACHE (snd (get_crypto_price upper lower net symbol vs w)) k =
         Some \<lparr>value = price, expires_at = now (snd (get_crypto_price upper lower net symbol vs w)) + 900\<rparr>)) \<or>
   (k = list_cache_key \<and>
    (\<exists>catalog. response (net coins_list_url) = Body catalog \<and>
       CACHE (snd (get_crypto_price upper lower net symbol vs w)) k =
         Some \<lparr>value = catalog, expires_at = now w + elapsed (net coins_list_url) + 86400\<rparr>))"
proof (cases "fst (cache_get (now w) (crypto_key (upper symbol) (lower vs)) (CACHE w)) = JNull")
  case False
  show ?thesis by (simp add: get_crypto_price_hit [where upper = upper and lower = lower, OF False])
next
  case True
  let ?key = "crypto_key (upper symbol) (lower vs)"
  define w1 where "w1 = w\<lparr>CACHE := snd (cache_get (now w) ?key (CACHE w))\<rparr>"
  define T where "T = crypto_try upper net (symbol_map_get (upper symbol)) (upper symbol) (lower vs) ?key w1"
  note eq = get_crypto_price_miss [where upper = upper and lower = lower, OF True T_def [unfolded w1_def]]
  have w1: "CACHE w1 k = CACHE w k \<or> CACHE w1 k = None" "now w1 = now w"
    using cache_get_same_or_purged [of "now w" ?key "CACHE w" k] by (auto simp: w1_def)
  note tw = crypto_try_writes [where upper = upper and net = net and c = "symbol_map_get (upper symbol)"
      and su = "upper symbol" and vs = "lower vs" and key = ?key and w = w1 and k = k,
      folded T_def]
  show ?thesis
  proof (cases "fst T")
    case (Inl e)
    with tw w1 show ?thesis by (auto simp: eq)
  next
    case (Inr f)
    show ?thesis
    proof (cases f)
      case (Return price)
      with Inr tw w1 show ?thesis by (auto simp: eq)
    next
      case (Fallthrough price)
      with Inr tw w1 show ?thesis by (auto simp: eq cache_set_def TTL_900)
    qed
  qed
qed


lemma crypto_try_error_keeps:
  assumes "fst (crypto_try upper net c su vs key w) = Inl e" and "key \<noteq> list_cache_key"
  shows "CACHE (snd (crypto_try upper net c su vs key w)) key = CACHE w key"
proof (cases "truthy c")
  case True
  with assms show ?thesis
    by (simp add: crypto_try_fast fetch_price_CACHE split: sum.splits if_splits)
next
  case False
  with assms show ?thesis
    by (simp add: crypto_try_fallback fetch_price_CACHE get_coins_list_other
        split: sum.splits if_splits)
qed


text \<open>
  C9.  A call of \<open>get_crypto_price\<close> that ends in an error leaves the price key as the
  read at its start left it, and no later read of that key finds a value.  The catalog
  key is another matter: whenever the symbol is not in the static table, both keys miss
  and the catalog request is answered with a body, that body is stored under the catalog
  key for 86400 seconds from the time of the answer, whether the call then fails or not.
\<close>

theorem failed_crypto_call_cache:
  "(fst (get_crypto_price upper lower net symbol vs w) = Inl e \<longrightarrow>
      CACHE (snd (get_crypto_price upper lower net symbol vs w)) (crypto_key (upper symbol) (lower vs)) =
        snd (cache_get (now w) (crypto_key (upper symbol) (lower vs)) (CACHE w))
          (crypto_key (upper symbol) (lower vs)) \<and>
      (\<forall>t. fst (cache_get t (crypto_key (upper symbol) (lower vs))
                 (CACHE (snd (get_crypto_price upper lower net symbol vs w)))) = JNull)) \<and>
   (map_of CRYPTO_SYMBOL_MAP (upper symbol) = None \<and>
    fst (cache_get (now w) (crypto_key (upper symbol) (lower vs)) (CACHE w)) = JNull \<and>
    fst (cache_get (now w) list_cache_key (CACHE w)) = JNull \<and>
    response (net coins_list_url) = Body catalog \<longrightarrow>
      CACHE (snd (get_crypto_price upper lower net symbol vs w)) list_cache_key =
        Some \<lparr>value = catalog,
              expires_at = now w + elapsed (net coins_list_url) + 86400\<rparr>)"
proof -
  let ?key = "crypto_key (upper symbol) (lower vs)"
  let ?r = "get_crypto_price upper lower net symbol vs w"
  define w1 where "w1 = w\<lparr>CACHE := snd (cache_get (now w) ?key (CACHE w))\<rparr>"
  define T where "T = crypto_try upper net (symbol_map_get (upper symbol)) (upper symbol) (lower vs) ?key w1"
  have kd: "?key \<noteq> list_cache_key" "list_cache_key \<noteq> ?key"
    using key_distinct [of "upper symbol" "lower vs"] by auto
  have A: "CACHE (snd ?r) ?key = snd (cache_get (now w) ?key (CACHE w)) ?key \<and>
      (\<forall>t. fst (cache_get t ?key (CACHE (snd ?r))) = JNull)" if err: "fst ?r = Inl e"
  proof -
    have miss: "fst (cache_get (now w) ?key (CACHE w)) = JNull"
      using err get_crypto_price_hit [where upper = upper and lower = lower and w = w and symbol = symbol and vs = vs and net = net] by force
    note eq = get_crypto_price_miss [where upper = upper and lower = lower, OF miss T_def [unfolded w1_def]]
    from err obtain e0 where t: "fst T = Inl e0" and w': "snd ?r = snd T"
      by (auto simp: eq split: sum.splits flow.splits)
    from crypto_try_error_keeps [OF t [unfolded T_def] kd(1)] w'
    have k: "CACHE (snd ?r) ?key = snd (cache_get (now w) ?key (CACHE w)) ?key"
      by (simp add: T_def w1_def)
    with cache_get_miss_stays [OF miss] show ?thesis by blast
  qed
  have B: "CACHE (snd ?r) list_cache_key =
        Some \<lparr>value = catalog, expires_at = now w + elapsed (net coins_list_url) + 86400\<rparr>"
    if unmapped: "map_of CRYPTO_SYMBOL_MAP (upper symbol) = None"
      and miss: "fst (cache_get (now w) ?key (CACHE w)) = JNull"
      and nocat: "fst (cache_get (now w) list_cache_key (CACHE w)) = JNull"
      and body: "response (net coins_list_url) = Body catalog"
  proof -
    note eq = get_crypto_price_miss [where upper = upper and lower = lower, OF miss T_def [unfolded w1_def]]
    have c: "\<not> truthy (symbol_map_get (upper symbol))"
      by (simp add: symbol_map_get_def unmapped)
    have "CACHE (snd ?r) list_cache_key = CACHE (snd T) list_cache_key"
      by (simp add: eq cache_set_def kd split: sum.splits flow.splits)
    also have "\<dots> = CACHE (snd (get_coins_list net w1)) list_cache_key"
      by (simp add: T_def crypto_try_fallback_CACHE [OF c])
    also have "fst (cache_get (now w1) list_cache_key (CACHE w1)) = JNull"
      using nocat cache_get_fst_cong [of "CACHE w1" list_cache_key "CACHE w" "now w"]
      by (simp add: w1_def cache_get_other kd)
    then have "CACHE (snd (get_coins_list net w1)) list_cache_key =
        Some \<lparr>value = catalog, expires_at = now w + elapsed (net coins_list_url) + 86400\<rparr>"
      by (simp add: get_coins_list_CACHE body fetch_def cache_set_def w1_def)
    finally show ?thesis .
  qed
  from A B show ?thesis by blast
qed

text \<open>
  Symbol \<open>bar\<close> is not in the fetched catalog: the call fails, writes no price, and
  leaves the catalog cached.
\<close>

theorem failed_crypto_call_cache_witness:
  "isl (fst (get_crypto_price ascii_upper ascii_lower coingecko ''bar'' ''usd'' cold_start)) \<and>
   CACHE cold_start list_cache_key = None \<and>
   CACHE (snd (get_crypto_price ascii_upper ascii_lower coingecko ''bar'' ''usd'' cold_start)) (crypto_key ''BAR'' ''usd'') = None \<and>
   CACHE (snd (get_crypto_price ascii_upper ascii_lower coingecko ''bar'' ''usd'' cold_start)) list_cache_key =
     Some \<lparr>value = foo_catalog, expires_at = 1000 + 1 + 86400\<rparr>"
proof -
  let ?r = "get_crypto_price ascii_upper ascii_lower coingecko ''bar'' ''usd'' cold_start"
  let ?e = "HTTPException 500
            [Lit ''Internal server error while processing crypto rates: '',
             StrExc (not_found ''BAR'')]"
  have err: "fst ?r = Inl ?e"
    by code_simp
  have h: "map_of CRYPTO_SYMBOL_MAP (ascii_upper ''bar'') = None \<and>
    fst (cache_get (now cold_start) (crypto_key (ascii_upper ''bar'') (ascii_lower ''usd'')) (CACHE cold_start)) = JNull \<and>
    fst (cache_get (now cold_start) list_cache_key (CACHE cold_start)) = JNull \<and>
    response (coingecko coins_list_url) = Body foo_catalog"
    by code_simp
  have e: "now cold_start = 1000" "elapsed (coingecko coins_list_url) = 1"
    "ascii_upper ''bar'' = ''BAR''" "ascii_lower ''usd'' = ''usd''"
    "snd (cache_get 1000 (crypto_key ''BAR'' ''usd'') (CACHE cold_start))
       (crypto_key ''BAR'' ''usd'') = None"
    by code_simp+
  have C: "CACHE cold_start list_cache_key = None"
    by (simp add: cold_start_def)
  from failed_crypto_call_cache
    [where upper = ascii_upper and lower = ascii_lower and net = coingecko and symbol = "''bar''"
       and vs = "''usd''" and w = cold_start and e = ?e and catalog = foo_catalog] err h C
  show ?thesis by (simp add: e)
qed

text \<open>
  C10.  The default TTL is 900 seconds.  Whatever a call of \<open>get_fiat_rate\<close> or of
  \<open>get_crypto_price\<close> does, every key of the cache afterwards holds what it held before,
  or nothing (an expired entry removed by a read), or the rate or price the call returns,
  expiring 900 seconds after the clock reading the call ends with, or, under the catalog
  key only, the fetched catalog, expiring 86400 seconds after its arrival.
\<close>

theorem cache_ttls:
  "CACHE_TTL_SECONDS = 900 \<and>
   (\<forall>k. CACHE (snd (get_fiat_rate upper net base target w)) k = CACHE w k \<or>
        CACHE (snd (get_fiat_rate upper net base target w)) k = None \<or>
        (k = fiat_key (upper base) (upper target) \<and>
         (\<exists>rate. fst (get_fiat_rate upper net base target w) = Inr rate \<and>
            CACHE (snd (get_fiat_rate upper net base target w)) k =
              Some \<lparr>value = rate,
                    expires_at = now (snd (get_fiat_rate upper net base target w)) + 900\<rparr>))) \<and>
   (\<forall>k. CACHE (snd (get_crypto_price upper lower net' symbol vs w')) k = CACHE w' k \<or>
        CACHE (snd (get_crypto_price upper lower net' symbol vs w')) k = None \<or>
        (k = crypto_key (upper symbol) (lower vs) \<and>
         (\<exists>price. fst (get_crypto_price upper lower net' symbol vs w') = Inr price \<and>
            CACHE (snd (get_crypto_price upper lower net' symbol vs w')) k =
              Some \<lparr>value = price,
                    expires_at = now (snd (get_crypto_price upper lower net' symbol vs w')) + 900\<rparr>)) \<or>
        (k = list_cache_key \<and>
         (\<exists>catalog. response (net' coins_list_url) = Body catalog \<and>
            CACHE (snd (get_crypto_price upper lower net' symbol vs w')) k =
              Some \<lparr>value = catalog,
                    expires_at = now w' + elapsed (net' coins_list_url) + 86400\<rparr>)))"
  using TTL_900 get_fiat_rate_writes [where upper = upper and net = net and base = base and target = target and w = w]
    get_crypto_price_writes [where upper = upper and lower = lower and net = net' and symbol = symbol and vs = vs and w = w']
  by blast

theorem cache_ttls_witness:
  "CACHE (snd (get_fiat_rate ascii_upper usd_table ''usd'' ''eur'' cold_start)) (fiat_key ''USD'' ''EUR'') =
     Some \<lparr>value = JFloat float_0_9, expires_at = 2001 / 2 + 900\<rparr> \<and>
   CACHE (snd (get_crypto_price ascii_upper ascii_lower coingecko ''Foo'' ''USD'' cold_start)) (crypto_key ''FOO'' ''usd'') =
     Some \<lparr>value = JInt 7, expires_at = 1002 + 900\<rparr> \<and>
   CACHE (snd (get_crypto_price ascii_upper ascii_lower coingecko ''Foo'' ''USD'' cold_start)) list_cache_key =
     Some \<lparr>value = foo_catalog, expires_at = 1001 + 86400\<rparr>"
proof -
  let ?f = "get_fiat_rate ascii_upper usd_table ''usd'' ''eur'' cold_start"
  let ?c = "get_crypto_price ascii_upper ascii_lower coingecko ''Foo'' ''USD'' cold_start"
  have f: "CACHE (snd ?f) (fiat_key ''USD'' ''EUR'') \<noteq> None" "fst ?f = Inr (JFloat float_0_9)"
    "now (snd ?f) = 2001 / 2" "ascii_upper ''usd'' = ''USD''" "ascii_upper ''eur'' = ''EUR''"
    by code_simp+
  have c: "CACHE (snd ?c) (crypto_key ''FOO'' ''usd'') \<noteq> None" "fst ?c = Inr (JInt 7)"
    "now (snd ?c) = 1002" "ascii_upper ''Foo'' = ''FOO''" "ascii_lower ''USD'' = ''usd''"
    "CACHE (snd ?c) list_cache_key \<noteq> None"
    "response (coingecko coins_list_url) = Body foo_catalog"
    "now cold_start + elapsed (coingecko coins_list_url) = 1001"
    by code_simp+
  have e: "CACHE cold_start k = None" for k
    by (simp add: cold_start_def)
  have kd: "crypto_key ''FOO'' ''usd'' \<noteq> list_cache_key" "list_cache_key \<noteq> crypto_key ''FOO'' ''usd''"
    using key_distinct [of "''FOO''" "''usd''"] by auto
  note t = cache_ttls [where upper = ascii_upper and lower = ascii_lower and net = usd_table and base = "''usd''" and target = "''eur''"
      and w = cold_start and net' = coingecko and symbol = "''Foo''" and vs = "''USD''"
      and w' = cold_start]
  note tf = t [THEN conjunct2, THEN conjunct1, THEN spec, of "fiat_key ''USD'' ''EUR''"]
  note tc = t [THEN conjunct2, THEN conjunct2, THEN spec, of "crypto_key ''FOO'' ''usd''"]
  note tl = t [THEN conjunct2, THEN conjunct2, THEN spec, of list_cache_key]
  from tf f(1) have 1: "CACHE (snd ?f) (fiat_key ''USD'' ''EUR'') =
     Some \<lparr>value = JFloat float_0_9, expires_at = 2001 / 2 + 900\<rparr>"
    by (auto simp: e f(2,3,4,5))
  from tc c(1) kd have 2: "CACHE (snd ?c) (crypto_key ''FOO'' ''usd'') =
     Some \<lparr>value = JInt 7, expires_at = 1002 + 900\<rparr>"
    by (auto simp: e c(2,3,4,5))
  from tl c(6) kd have 3: "CACHE (snd ?c) list_cache_key =
     Some \<lparr>value = foo_catalog, expires_at = 1001 + 86400\<rparr>"
    by (auto simp: e c(4,5,7,8))
  from 1 2 3 show ?thesis by blast
qed

section \<open>The crypto price resolver: the fallback\<close>

lemma price_url_not_catalog: "price_url c vs \<noteq> coins_list_url"
  by (simp add: price_url_def coins_list_url_def)

lemma count_snoc: "count_list (xs @ [a]) b = count_list xs b + (if a = b then 1 else 0)"
  by (induction xs) auto

lemma cache_get_live:
  "C k = Some \<lparr>value = v, expires_at = T\<rparr> \<Longrightarrow> t \<le> T \<Longrightarrow> cache_get t k C = (v, C)"
  by (simp add: cache_get_def)

lemma get_coins_list_cached:
  assumes "CACHE w list_cache_key = Some \<lparr>value = cl, expires_at = T\<rparr>" and "cl \<noteq> JNull"
    and "now w \<le> T"
  shows "get_coins_list net w = (Inr cl, w)"
  using assms by (simp add: get_coins_list_def cache_get_live)

lemma crypto_try_catalog_cached:
  assumes cached: "CACHE w list_cache_key = Some \<lparr>value = cl, expires_at = T\<rparr>" "cl \<noteq> JNull"
    "now w \<le> T"
  shows "count_list (sent (snd (crypto_try upper net c su vs key w))) coins_list_url =
           count_list (sent w) coins_list_url \<and>
         (key \<noteq> list_cache_key \<longrightarrow>
            CACHE (snd (crypto_try upper net c su vs key w)) list_cache_key = CACHE w list_cache_key)"
proof (cases "truthy c")
  case True
  show ?thesis
    by (simp add: crypto_try_fast [OF True] fetch_price_snd count_snoc price_url_not_catalog
        cache_set_def split: sum.splits)
next
  case False
  show ?thesis
    by (simp add: crypto_try_fallback [OF False] get_coins_list_cached [OF cached]
        fetch_price_snd count_snoc price_url_not_catalog split: sum.splits)
qed

lemma get_crypto_price_catalog_cached:
  assumes cached: "CACHE w list_cache_key = Some \<lparr>value = cl, expires_at = T\<rparr>" "cl \<noteq> JNull"
    "now w \<le> T"
  shows "count_list (sent (snd (get_crypto_price upper lower net symbol vs w))) coins_list_url =
           count_list (sent w) coins_list_url \<and>
         CACHE (snd (get_crypto_price upper lower net symbol vs w)) list_cache_key = CACHE w list_cache_key"
proof (cases "fst (cache_get (now w) (crypto_key (upper symbol) (lower vs)) (CACHE w)) = JNull")
  case False
  show ?thesis by (simp add: get_crypto_price_hit [where upper = upper and lower = lower, OF False])
next
  case True
  let ?key = "crypto_key (upper symbol) (lower vs)"
  define w1 where "w1 = w\<lparr>CACHE := snd (cache_get (now w) ?key (CACHE w))\<rparr>"
  define T' where "T' = crypto_try upper net (symbol_map_get (upper symbol)) (upper symbol) (lower vs) ?key w1"
  note eq = get_crypto_price_miss [where upper = upper and lower = lower, OF True T'_def [unfolded w1_def]]
  have kd: "?key \<noteq> list_cache_key" "list_cache_key \<noteq> ?key"
    using key_distinct [of "upper symbol" "lower vs"] by auto
  have w1: "CACHE w1 list_cache_key = Some \<lparr>value = cl, expires_at = T\<rparr>" "now w1 \<le> T"
    "sent w1 = sent w"
    using cached by (simp_all add: w1_def cache_get_other kd)
  from crypto_try_catalog_cached [OF w1(1) cached(2) w1(2), where upper = upper and net = net
      and c = "symbol_map_get (upper symbol)" and su = "upper symbol" and vs = "lower vs" and key = ?key] kd
  have t: "count_list (sent (snd T')) coins_list_url = count_list (sent w) coins_list_url"
    "CACHE (snd T') list_cache_key = CACHE w list_cache_key"
    by (simp_all add: T'_def w1 cached)
  show ?thesis
    by (simp add: eq t cache_set_def kd split: sum.splits flow.splits)
qed

lemma crypto_calls_no_fetch:
  assumes "CACHE w list_cache_key = Some \<lparr>value = cl, expires_at = T\<rparr>" and "cl \<noteq> JNull"
    and "\<forall>c \<in> set calls. fst c \<le> T"
  shows "count_list (sent (crypto_calls upper lower calls w)) coins_list_url = count_list (sent w) coins_list_url"
  using assms
proof (induction calls arbitrary: w)
  case Nil
  then show ?case by simp
next
  case (Cons c calls)
  obtain t net symbol vs where c: "c = (t, net, symbol, vs)" by (cases c) auto
  let ?w' = "snd (get_crypto_price upper lower net symbol vs (w\<lparr>now := t\<rparr>))"
  from Cons.prems c have "t \<le> T" by simp
  with Cons.prems(1,2)
  have step: "count_list (sent ?w') coins_list_url = count_list (sent w) coins_list_url"
    "CACHE ?w' list_cache_key = Some \<lparr>value = cl, expires_at = T\<rparr>"
    using get_crypto_price_catalog_cached [where upper = upper and lower = lower
        and w = "w\<lparr>now := t\<rparr>" and cl = cl and T = T and net = net and symbol = symbol and vs = vs] by simp_all
  from Cons.IH [OF step(2) Cons.prems(2)] Cons.prems(3) step(1) c
  show ?case by simp
qed

lemma cache_get_hit:
  assumes "fst (cache_get t k C) \<noteq> JNull"
  shows "\<exists>T. C k = Some \<lparr>value = fst (cache_get t k C), expires_at = T\<rparr> \<and> t \<le> T \<and>
    snd (cache_get t k C) = C"
proof (cases "C k")
  case None
  with assms show ?thesis by (simp add: cache_get_def)
next
  case (Some a)
  with assms have "\<not> t > expires_at a" "fst (cache_get t k C) = value a" "snd (cache_get t k C) = C"
    by (auto simp: cache_get_def split: if_splits)
  with Some show ?thesis
    by (intro exI [of _ "expires_at a"]) simp
qed

lemma get_coins_list_entry:
  assumes "fst (get_coins_list net w) = Inr cl"
  shows "\<exists>T. CACHE (snd (get_coins_list net w)) list_cache_key = Some \<lparr>value = cl, expires_at = T\<rparr> \<and>
    (fst (cache_get (now w) list_cache_key (CACHE w)) = JNull \<longrightarrow>
       T = now w + elapsed (net coins_list_url) + 86400)"
proof (cases "fst (cache_get (now w) list_cache_key (CACHE w)) = JNull")
  case True
  with assms have "fetch (response (net coins_list_url)) = Inr cl"
    by (simp add: get_coins_list_fst)
  with True have "CACHE (snd (get_coins_list net w)) list_cache_key =
      Some \<lparr>value = cl, expires_at = now w + elapsed (net coins_list_url) + 86400\<rparr>"
    by (simp add: get_coins_list_CACHE cache_set_def)
  then show ?thesis by simp
next
  case False
  with assms have cl: "fst (cache_get (now w) list_cache_key (CACHE w)) = cl"
    by (simp add: get_coins_list_fst)
  from cache_get_hit [OF False] obtain T where
    "CACHE w list_cache_key = Some \<lparr>value = fst (cache_get (now w) list_cache_key (CACHE w)), expires_at = T\<rparr>"
    "snd (cache_get (now w) list_cache_key (CACHE w)) = CACHE w"
    by blast
  with False cl have "CACHE (snd (get_coins_list net w)) list_cache_key =
      Some \<lparr>value = cl, expires_at = T\<rparr>"
    by (simp add: get_coins_list_CACHE)
  with False show ?thesis by simp
qed

lemma first_match_skips:
  assumes "\<forall>c \<in> set pre. \<exists>kvs s. c = JObj kvs \<and> map_of kvs ''symbol'' = Some (JStr s) \<and> upper s \<noteq> su"
    and "map_of entry ''symbol'' = Some (JStr s0)" and "upper s0 = su"
  shows "first_match upper (pre @ JObj entry # post) su = py_item (JObj entry) ''id''"
  using assms by (induction pre) (auto simp: py_item_def)

lemma crypto_key_text:
  "''crypto:'' @ su @ '':'' @ vl = crypto_key su vl"
  by (simp add: crypto_key_def)

lemma list_cache_key_text: "''coingecko:coins:list'' = list_cache_key"
  by (simp add: list_cache_key_def)

lemma coins_list_url_text:
  "[Lit ''https://api.coingecko.com/api/v3/'', Lit ''coins/list''] = coins_list_url"
  by (simp add: coins_list_url_def COINGECKO_API_BASE_URL_def)

lemma price_url_text:
  "[Lit ''https://api.coingecko.com/api/v3/'', Lit ''simple/price?ids='', Str c,
    Lit ''&vs_currencies='', Lit vl] = price_url c vl"
  by (simp add: price_url_def COINGECKO_API_BASE_URL_def)

text \<open>
  C6, as the claim states it, fails: the symbol \<open>foo\<close> is absent from the static table,
  its lowercase form is the symbol field of the catalog entry \<open>foo_coin\<close>, and the
  upstream reports a price for the id of every entry, yet the call returns no price when
  an entry before the match has no symbol field (the search raises \<open>KeyError\<close>) or when
  the first match has an empty id (the call takes the symbol for unknown); both leave as
  a status 500.  And the catalog request is sent again by a call that starts while the
  catalog request of another call is still awaited: nothing is cached before the answer
  arrives.
\<close>

theorem crypto_fallback_resolution_counterexample:
  "map_of CRYPTO_SYMBOL_MAP (ascii_upper ''foo'') = None \<and>
   py_item foo_coin ''symbol'' = Inr (JStr (ascii_lower ''foo'')) \<and>
   fst (get_crypto_price ascii_upper ascii_lower (catalog_server no_symbol_catalog) ''foo'' ''usd''
          cold_start) =
     Inl (HTTPException 500
           [Lit ''Internal server error while processing crypto rates: '', StrExc (PyError KeyError)]) \<and>
   fst (get_crypto_price ascii_upper ascii_lower (catalog_server empty_id_catalog) ''foo'' ''usd''
          cold_start) =
     Inl (HTTPException 500
           [Lit ''Internal server error while processing crypto rates: '',
            StrExc (HTTPException 404
              [Lit ''Crypto symbol '', Lit [CHR 0x27], Lit ''FOO'', Lit [CHR 0x27],
               Lit '' not found on CoinGecko''])]) \<and>
   sent (snd (get_crypto_price ascii_upper ascii_lower coingecko ''foo'' ''usd''
               (cold_start\<lparr>sent := [coins_list_url]\<rparr>))) =
     [coins_list_url, coins_list_url, price_url (JStr ''foo-coin'') ''usd'']"
  by code_simp


text \<open>
  C6, amended.  Let the symbol be absent from the static table and the price key miss the
  cache.  Let the catalog the call obtains, the live entry of the cache under
  \<open>coingecko:coins:list\<close> or else the body answered to the catalog request, be a list in
  which some entry is an object whose symbol field is a string with the uppercase form
  of the requested symbol and whose id field is a non-empty string \<open>cid\<close>, every entry
  before it being an object whose symbol field is a string with another uppercase form
  (the entries after it are arbitrary).  Let the upstream answer the price request for
  \<open>cid\<close> and the lowercased currency with an object holding under \<open>cid\<close> an object holding
  under that currency a price other than \<open>null\<close>.  Then the call returns that price; it
  sends the catalog request only if the catalog was not cached, and then the price
  request for \<open>cid\<close>, and nothing else; afterwards the catalog is cached until \<open>T\<close>, which
  is 86400 seconds after its arrival when this call fetched it; and no sequence of later
  calls, run one after the other with clock readings of at most \<open>T\<close> at their start,
  sends the catalog request again, whatever their symbols and the upstream's answers.
\<close>

theorem crypto_fallback_resolution:
  assumes unmapped: "map_of CRYPTO_SYMBOL_MAP (upper symbol) = None"
    and miss: "fst (cache_get (now w) (''crypto:'' @ upper symbol @ '':'' @ lower vs) (CACHE w)) = JNull"
    and cached: "fst (cache_get (now w) ''coingecko:coins:list'' (CACHE w)) = cached"
    and catalog: "if cached = JNull
        then response (net [Lit ''https://api.coingecko.com/api/v3/'', Lit ''coins/list'']) =
               Body (JArr (pre @ JObj entry # post))
        else cached = JArr (pre @ JObj entry # post)"
    and before: "\<forall>c \<in> set pre. \<exists>kvs s. c = JObj kvs \<and> map_of kvs ''symbol'' = Some (JStr s) \<and>
                   upper s \<noteq> upper symbol"
    and match: "map_of entry ''symbol'' = Some (JStr s0)" "upper s0 = upper symbol"
    and cid: "map_of entry ''id'' = Some (JStr cid)" "cid \<noteq> []"
    and body: "response (net [Lit ''https://api.coingecko.com/api/v3/'', Lit ''simple/price?ids='',
                          Str (JStr cid), Lit ''&vs_currencies='', Lit (lower vs)]) = Body (JObj data)"
    and quote: "map_of data cid = Some (JObj quote)" "map_of quote (lower vs) = Some price"
      "price \<noteq> JNull"
  shows "fst (get_crypto_price upper lower net symbol vs w) = Inr price \<and>
    sent (snd (get_crypto_price upper lower net symbol vs w)) =
      sent w @
      (if cached = JNull then [[Lit ''https://api.coingecko.com/api/v3/'', Lit ''coins/list'']]
       else []) @
      [[Lit ''https://api.coingecko.com/api/v3/'', Lit ''simple/price?ids='', Str (JStr cid),
        Lit ''&vs_currencies='', Lit (lower vs)]] \<and>
    (\<exists>T. CACHE (snd (get_crypto_price upper lower net symbol vs w)) ''coingecko:coins:list'' =
           Some \<lparr>value = JArr (pre @ JObj entry # post), expires_at = T\<rparr> \<and>
         (cached = JNull \<longrightarrow>
            T = now w + elapsed (net [Lit ''https://api.coingecko.com/api/v3/'', Lit ''coins/list''])
                + 86400) \<and>
         (\<forall>calls. (\<forall>call \<in> set calls. fst call \<le> T) \<longrightarrow>
            count_list
              (sent (crypto_calls upper lower calls (snd (get_crypto_price upper lower net symbol vs w))))
              [Lit ''https://api.coingecko.com/api/v3/'', Lit ''coins/list''] =
            count_list (sent (snd (get_crypto_price upper lower net symbol vs w)))
              [Lit ''https://api.coingecko.com/api/v3/'', Lit ''coins/list'']))"
proof -
  let ?key = "crypto_key (upper symbol) (lower vs)"
  let ?r = "get_crypto_price upper lower net symbol vs w"
  let ?cs = "pre @ JObj entry # post"
  define w1 where "w1 = w\<lparr>CACHE := snd (cache_get (now w) ?key (CACHE w))\<rparr>"
  define T' where "T' = crypto_try upper net (symbol_map_get (upper symbol)) (upper symbol) (lower vs) ?key w1"
  define g where "g = get_coins_list net w1"
  have miss': "fst (cache_get (now w) ?key (CACHE w)) = JNull"
    using miss by (simp only: crypto_key_text)
  have cached': "fst (cache_get (now w) list_cache_key (CACHE w)) = cached"
    using cached by (simp only: list_cache_key_text)
  have catalog': "if cached = JNull then response (net coins_list_url) = Body (JArr ?cs)
        else cached = JArr ?cs"
    using catalog by (simp only: coins_list_url_text)
  have body': "response (net (price_url (JStr cid) (lower vs))) = Body (JObj data)"
    using body by (simp only: price_url_text)
  note eq = get_crypto_price_miss [where upper = upper and lower = lower, OF miss' T'_def [unfolded w1_def]]
  have kd: "?key \<noteq> list_cache_key" "list_cache_key \<noteq> ?key"
    using key_distinct [of "upper symbol" "lower vs"] by auto
  have c0: "\<not> truthy (symbol_map_get (upper symbol))"
    by (simp add: symbol_map_get_def unmapped)
  have w1: "now w1 = now w" "sent w1 = sent w"
    by (simp_all add: w1_def)
  have "CACHE w1 list_cache_key = CACHE w list_cache_key"
    by (simp add: w1_def cache_get_other kd)
  then have "fst (cache_get (now w) list_cache_key (CACHE w1)) =
              fst (cache_get (now w) list_cache_key (CACHE w))"
    by (rule cache_get_fst_cong)
  with cached' have same: "fst (cache_get (now w) list_cache_key (CACHE w1)) = cached"
    by simp
  have gcat: "fst g = Inr (JArr ?cs)"
    using catalog' by (simp add: g_def get_coins_list_fst w1 same fetch_def split: if_splits)
  have gsent: "sent (snd g) = sent w @ (if cached = JNull then [coins_list_url] else [])"
    by (simp add: g_def get_coins_list_sent same w1)
  from get_coins_list_entry [OF gcat [unfolded g_def]] obtain T where
    T: "CACHE (snd g) list_cache_key = Some \<lparr>value = JArr ?cs, expires_at = T\<rparr>"
      "cached = JNull \<longrightarrow> T = now w + elapsed (net coins_list_url) + 86400"
    unfolding g_def [symmetric] w1 same by blast
  have "first_match upper ?cs (upper symbol) = py_item (JObj entry) ''id''"
    using before match by (rule first_match_skips)
  then have found: "find_coin_id upper (JArr ?cs) (upper symbol) = Inr (JStr cid)"
    by (simp add: find_coin_id_def py_iter_def py_item_def cid(1))
  have p: "price_of (JObj data) (JStr cid) (lower vs) = Inr price"
    by (simp add: price_of_def py_get_def quote)
  have t: "T' = (Inr (Fallthrough price), snd (fetch_price net (JStr cid) (lower vs) (snd g)))"
    using gcat found cid(2) body' p quote(3)
    by (simp add: T'_def crypto_try_fallback [OF c0] g_def [symmetric] fetch_price_fst fetch_def)
  have r1: "fst ?r = Inr price"
    by (simp add: eq t)
  have "sent (snd ?r) = sent (snd g) @ [price_url (JStr cid) (lower vs)]"
    by (simp add: eq t fetch_price_snd)
  then have r2: "sent (snd ?r) =
      sent w @ (if cached = JNull then [coins_list_url] else []) @ [price_url (JStr cid) (lower vs)]"
    by (simp only: gsent append_assoc)
  have r3: "CACHE (snd ?r) list_cache_key = Some \<lparr>value = JArr ?cs, expires_at = T\<rparr>"
    by (simp add: eq t fetch_price_snd cache_set_def kd T)
  have r4: "count_list (sent (crypto_calls upper lower calls (snd ?r))) coins_list_url =
          count_list (sent (snd ?r)) coins_list_url"
    if "\<forall>call \<in> set calls. fst call \<le> T" for calls
    using crypto_calls_no_fetch [OF r3 _ that] by simp
  have "fst ?r = Inr price \<and>
    sent (snd ?r) =
      sent w @ (if cached = JNull then [coins_list_url] else []) @ [price_url (JStr cid) (lower vs)] \<and>
    (\<exists>T. CACHE (snd ?r) list_cache_key = Some \<lparr>value = JArr ?cs, expires_at = T\<rparr> \<and>
         (cached = JNull \<longrightarrow> T = now w + elapsed (net coins_list_url) + 86400) \<and>
         (\<forall>calls. (\<forall>call \<in> set calls. fst call \<le> T) \<longrightarrow>
            count_list (sent (crypto_calls upper lower calls (snd ?r))) coins_list_url =
            count_list (sent (snd ?r)) coins_list_url))"
    using r1 r2 r3 r4 T(2) by blast
  then show ?thesis
    unfolding coins_list_url_text [symmetric] price_url_text [symmetric]
      list_cache_key_text [symmetric] .
qed

theorem crypto_fallback_resolution_witness:
  "fst (get_crypto_price ascii_upper ascii_lower (catalog_server ragged_catalog) ''Foo'' ''USD''
          cold_start) = Inr (JInt 7) \<and>
   sent (snd (get_crypto_price ascii_upper ascii_lower (catalog_server ragged_catalog) ''Foo'' ''USD''
               cold_start)) =
     [coins_list_url, price_url (JStr ''foo-coin'') ''usd''] \<and>
   CACHE (snd (get_crypto_price ascii_upper ascii_lower (catalog_server ragged_catalog) ''Foo'' ''USD''
                cold_start)) list_cache_key =
     Some \<lparr>value = ragged_catalog, expires_at = 87401\<rparr> \<and>
   count_list
     (sent (crypto_calls ascii_upper ascii_lower later_calls
             (snd (get_crypto_price ascii_upper ascii_lower (catalog_server ragged_catalog) ''Foo''
                    ''USD'' cold_start))))
     coins_list_url = 1"
proof -
  let ?net = "catalog_server ragged_catalog"
  let ?r = "get_crypto_price ascii_upper ascii_lower ?net ''Foo'' ''USD'' cold_start"
  let ?pre = "[JObj [(''symbol'', JStr ''bar'')]]"
  let ?entry = "[(''id'', JStr ''foo-coin''), (''symbol'', JStr ''foo'')]"
  let ?post = "[JInt 17]"
  let ?data = "[('''', JObj [(''usd'', JInt 3)]), (''foo-coin'', JObj [(''usd'', JInt 7)])]"
  let ?quote = "[(''usd'', JInt 7)]"
  have unmapped: "map_of CRYPTO_SYMBOL_MAP (ascii_upper ''Foo'') = None"
    by code_simp
  have miss: "fst (cache_get (now cold_start) (''crypto:'' @ ascii_upper ''Foo'' @ '':'' @ ascii_lower ''USD'')
                (CACHE cold_start)) = JNull"
    by code_simp
  have cached: "fst (cache_get (now cold_start) ''coingecko:coins:list'' (CACHE cold_start)) = JNull"
    by code_simp
  have "response (?net [Lit ''https://api.coingecko.com/api/v3/'', Lit ''coins/list'']) =
      Body (JArr (?pre @ JObj ?entry # ?post))"
    by code_simp
  then have catalog: "if JNull = JNull
      then response (?net [Lit ''https://api.coingecko.com/api/v3/'', Lit ''coins/list'']) =
             Body (JArr (?pre @ JObj ?entry # ?post))
      else JNull = JArr (?pre @ JObj ?entry # ?post)"
    by simp
  have other: "ascii_upper ''bar'' \<noteq> ascii_upper ''Foo''"
    by code_simp
  have before: "\<forall>c \<in> set ?pre. \<exists>kvs s. c = JObj kvs \<and> map_of kvs ''symbol'' = Some (JStr s) \<and>
      ascii_upper s \<noteq> ascii_upper ''Foo''"
    using other by simp
  have match: "map_of ?entry ''symbol'' = Some (JStr ''foo'')" "ascii_upper ''foo'' = ascii_upper ''Foo''"
    by code_simp+
  have cid: "map_of ?entry ''id'' = Some (JStr ''foo-coin'')" "''foo-coin'' \<noteq> []"
    by code_simp+
  have body: "response (?net [Lit ''https://api.coingecko.com/api/v3/'', Lit ''simple/price?ids='',
      Str (JStr ''foo-coin''), Lit ''&vs_currencies='', Lit (ascii_lower ''USD'')]) = Body (JObj ?data)"
    by code_simp
  have quote: "map_of ?data ''foo-coin'' = Some (JObj ?quote)"
    "map_of ?quote (ascii_lower ''USD'') = Some (JInt 7)" "JInt 7 \<noteq> JNull"
    by code_simp+
  have vals: "now cold_start = 1000" "sent cold_start = []" "ascii_lower ''USD'' = ''usd''"
    "elapsed (?net [Lit ''https://api.coingecko.com/api/v3/'', Lit ''coins/list'']) = 1"
    "ragged_catalog = JArr (?pre @ JObj ?entry # ?post)"
    by code_simp+
  have times: "\<forall>call \<in> set later_calls. fst call \<le> 1000 + 1 + 86400"
    by (simp add: later_calls_def)
  from crypto_fallback_resolution [where upper = ascii_upper and lower = ascii_lower
      and symbol = "''Foo''" and vs = "''USD''" and w = cold_start and cached = JNull and net = ?net
      and pre = ?pre and entry = ?entry and post = ?post and ?s0.0 = "''foo''"
      and cid = "''foo-coin''" and data = ?data and quote = ?quote and price = "JInt 7",
      OF unmapped miss cached catalog before match cid body quote]
  obtain T where
    r: "fst ?r = Inr (JInt 7)"
      "sent (snd ?r) = sent cold_start @ [[Lit ''https://api.coingecko.com/api/v3/'', Lit ''coins/list'']] @
         [[Lit ''https://api.coingecko.com/api/v3/'', Lit ''simple/price?ids='', Str (JStr ''foo-coin''),
           Lit ''&vs_currencies='', Lit (ascii_lower ''USD'')]]"
      "CACHE (snd ?r) ''coingecko:coins:list'' =
         Some \<lparr>value = JArr (?pre @ JObj ?entry # ?post), expires_at = T\<rparr>"
      "T = now cold_start + elapsed (?net [Lit ''https://api.coingecko.com/api/v3/'', Lit ''coins/list''])
            + 86400"
      "\<And>calls. \<forall>call \<in> set calls. fst call \<le> T \<Longrightarrow>
         count_list (sent (crypto_calls ascii_upper ascii_lower calls (snd ?r)))
           [Lit ''https://api.coingecko.com/api/v3/'', Lit ''coins/list''] =
         count_list (sent (snd ?r)) [Lit ''https://api.coingecko.com/api/v3/'', Lit ''coins/list'']"
    by auto
  have el: "elapsed (catalog_server catalog u) = 1" for catalog u
    by (simp add: catalog_server_def)
  have T: "T = 1000 + 1 + 86400"
    using r(4) by (simp add: vals(1) el)
  note later = r(5) [OF times [folded T]]
  have 1: "fst ?r = Inr (JInt 7)"
    by (rule r(1))
  have 2: "sent (snd ?r) = [coins_list_url, price_url (JStr ''foo-coin'') ''usd'']"
    using r(2) by (simp add: vals(2,3) coins_list_url_text price_url_text)
  have 3: "CACHE (snd ?r) list_cache_key = Some \<lparr>value = ragged_catalog, expires_at = 87401\<rparr>"
    using r(3) T by (simp add: vals(5) list_cache_key_text)
  have 4: "count_list (sent (crypto_calls ascii_upper ascii_lower later_calls (snd ?r))) coins_list_url = 1"
    using later 2 by (simp add: coins_list_url_text price_url_not_catalog)
  from 1 2 3 4 show ?thesis
    by simp
qed

section \<open>The endpoints: the conversion\<close>

lemma round_half_even_nearest: "\<bar>of_int (round_half_even x) - x\<bar> \<le> 1 / 2"
proof -
  define f where "f = \<lfloor>x\<rfloor>"
  have b: "of_int f \<le> x" "x < of_int f + 1" unfolding f_def by linarith+
  have "\<bar>of_int f - x\<bar> \<le> 1 / 2" if "x - of_int f \<le> 1 / 2" using that b by linarith
  moreover have "\<bar>of_int (f + 1) - x\<bar> \<le> 1 / 2" if "1 / 2 \<le> x - of_int f" using that b by simp
  ultimately show ?thesis
    unfolding round_half_even_def Let_def f_def [symmetric] by (simp split: if_splits)
qed

lemma round_half_even_tie:
  assumes "\<bar>of_int (round_half_even x) - x\<bar> = 1 / 2"
  shows "even (round_half_even x)"
proof -
  define f where "f = \<lfloor>x\<rfloor>"
  have b: "of_int f \<le> x" "x < of_int f + 1" unfolding f_def by linarith+
  show ?thesis
  proof (cases "x - of_int f = 1 / 2")
    case True
    then show ?thesis
      unfolding round_half_even_def Let_def f_def [symmetric] by simp
  next
    case False
    have "\<bar>of_int (round_half_even x) - x\<bar> \<noteq> 1 / 2"
      using False b unfolding round_half_even_def Let_def f_def [symmetric]
      by (simp split: if_splits)
    with assms show ?thesis by simp
  qed
qed

lemma py_round_nearest:
  "\<exists>k. py_round (Finite x) 8 = binary64 (of_int k / 10 ^ 8) \<and>
       \<bar>of_int k - x * 10 ^ 8\<bar> \<le> 1 / 2 \<and>
       (\<bar>of_int k - x * 10 ^ 8\<bar> = 1 / 2 \<longrightarrow> even k)"
proof (intro exI [of _ "round_half_even (x * 10 ^ 8)"] conjI impI)
  show "py_round (Finite x) 8 = binary64 (of_int (round_half_even (x * 10 ^ 8)) / 10 ^ 8)"
    by (simp add: py_round_def)
  show "\<bar>of_int (round_half_even (x * 10 ^ 8)) - x * 10 ^ 8\<bar> \<le> 1 / 2"
    by (rule round_half_even_nearest)
  show "even (round_half_even (x * 10 ^ 8))"
    if "\<bar>of_int (round_half_even (x * 10 ^ 8)) - x * 10 ^ 8\<bar> = 1 / 2"
    using that by (rule round_half_even_tie)
qed

lemma py_mul_Inr:
  assumes "py_mul amount rate = Inr product"
  shows "\<exists>r. (rate = JFloat r \<or> (\<exists>i. rate = JInt i \<and> binary64 (of_int i) = Finite r) \<or>
              (\<exists>b. rate = JBool b \<and> r = (if b then 1 else 0))) \<and>
             product = float_mul amount (Finite r)"
proof (cases rate)
  case (JFloat v)
  with assms show ?thesis by (simp add: py_mul_def)
next
  case (JInt i)
  with assms show ?thesis
    by (cases "binary64 (of_int i)") (simp_all add: py_mul_def)
next
  case (JBool b)
  with assms show ?thesis by (simp add: py_mul_def)
qed (use assms in \<open>simp_all add: py_mul_def\<close>)

lemma convert_Inr:
  assumes "convert upper net f t amount w = (Inr c, w')"
  shows "get_fiat_rate upper net f t w = (Inr (fiat_rate c), w') \<and> fiat_amount c = amount \<and>
     fiat_from c = upper f \<and> fiat_to c = upper t \<and>
     (\<exists>product. py_mul amount (fiat_rate c) = Inr product \<and>
        fiat_converted_amount c = py_round product 8)"
  using assms by (auto simp: convert_def split: prod.splits sum.splits)

lemma crypto_convert_Inr:
  assumes "crypto_convert upper lower net s v amount w = (Inr c, w')"
  shows "get_crypto_price upper lower net s v w = (Inr (crypto_price_per_unit c), w') \<and>
     crypto_amount c = amount \<and> crypto_symbol c = upper s \<and> crypto_vs_currency c = lower v \<and>
     (\<exists>product. py_mul amount (crypto_price_per_unit c) = Inr product \<and>
        crypto_converted_amount c = py_round product 8)"
  using assms by (auto simp: crypto_convert_def split: prod.splits sum.splits)

lemma float_0_9: "binary64 (9 / 10) = Finite float_0_9"
  by code_simp


lemma product_100_0_9: "float_mul (Finite 100) (Finite float_0_9) = Finite 90"
  by code_simp

lemma round_90: "py_round (Finite 90) 8 = Finite 90"
  by code_simp

lemma convert_usd_eur:
  "fst (convert ascii_upper usd_table ''usd'' ''eur'' (Finite 100) cold_start) =
     Inr \<lparr>fiat_from = ''USD'', fiat_to = ''EUR'', fiat_amount = Finite 100,
          fiat_rate = JFloat float_0_9, fiat_converted_amount = Finite 90\<rparr>"
  by code_simp

lemma crypto_convert_foo:
  "fst (crypto_convert ascii_upper ascii_lower coingecko ''Foo'' ''USD'' (Finite (1 / 2)) cold_start) =
     Inr \<lparr>crypto_symbol = ''FOO'', crypto_vs_currency = ''usd'', crypto_amount = Finite (1 / 2),
          crypto_price_per_unit = JInt 7, crypto_converted_amount = Finite (7 / 2)\<rparr>"
  by code_simp

lemma float_7: "binary64 7 = Finite 7"
  by code_simp

text \<open>
  C8.  When \<open>/convert\<close> returns, the rate in its answer is the one the resolver returned,
  a number, and \<open>converted_amount\<close> is \<open>round(amount * rate, 8)\<close>: the float product of the
  amount and the rate as a float, rounded to 8 decimal places.  The same holds of
  \<open>/crypto\<close> and its price.  The product of two finite floats is their exact product
  rounded to the nearest float; rounding a finite float to 8 places gives the float
  nearest to \<open>k / 10 ^ 8\<close>, where \<open>k\<close> is an integer nearest to \<open>x * 10 ^ 8\<close>, the even
  one on a tie.  The literal \<open>0.9\<close> is the float \<open>float_0_9\<close>, the product of 100 and 0.9
  is the float 90.0, and rounding leaves it as it is.
\<close>

theorem conversion_math:
  "(convert upper net f t amount w = (Inr c, w') \<longrightarrow>
      fst (get_fiat_rate upper net f t w) = Inr (fiat_rate c) \<and> fiat_amount c = amount \<and>
      (\<exists>r. (fiat_rate c = JFloat r \<or>
            (\<exists>i. fiat_rate c = JInt i \<and> binary64 (of_int i) = Finite r) \<or>
            (\<exists>b. fiat_rate c = JBool b \<and> r = (if b then 1 else 0))) \<and>
           fiat_converted_amount c = py_round (float_mul amount (Finite r)) 8)) \<and>
   (crypto_convert upper lower net' s v amount' w0 = (Inr c', w0') \<longrightarrow>
      fst (get_crypto_price upper lower net' s v w0) = Inr (crypto_price_per_unit c') \<and>
      crypto_amount c' = amount' \<and>
      (\<exists>r. (crypto_price_per_unit c' = JFloat r \<or>
            (\<exists>i. crypto_price_per_unit c' = JInt i \<and> binary64 (of_int i) = Finite r) \<or>
            (\<exists>b. crypto_price_per_unit c' = JBool b \<and> r = (if b then 1 else 0))) \<and>
           crypto_converted_amount c' = py_round (float_mul amount' (Finite r)) 8)) \<and>
   (\<forall>a b. float_mul (Finite a) (Finite b) = binary64 (a * b)) \<and>
   (\<forall>x. \<exists>k. py_round (Finite x) 8 = binary64 (of_int k / 10 ^ 8) \<and>
          \<bar>of_int k - x * 10 ^ 8\<bar> \<le> 1 / 2 \<and>
          (\<bar>of_int k - x * 10 ^ 8\<bar> = 1 / 2 \<longrightarrow> even k)) \<and>
   binary64 (9 / 10) = Finite float_0_9 \<and>
   float_mul (Finite 100) (Finite float_0_9) = Finite 90 \<and>
   py_round (Finite 90) 8 = Finite 90"
proof (intro conjI impI allI)
  assume a: "convert upper net f t amount w = (Inr c, w')"
  from convert_Inr [OF a] show "fst (get_fiat_rate upper net f t w) = Inr (fiat_rate c)"
    and "fiat_amount c = amount"
    by simp_all
  from convert_Inr [OF a] obtain product where
    p: "py_mul amount (fiat_rate c) = Inr product" "fiat_converted_amount c = py_round product 8"
    by blast
  from py_mul_Inr [OF p(1)] p(2)
  show "\<exists>r. (fiat_rate c = JFloat r \<or>
            (\<exists>i. fiat_rate c = JInt i \<and> binary64 (of_int i) = Finite r) \<or>
            (\<exists>b. fiat_rate c = JBool b \<and> r = (if b then 1 else 0))) \<and>
           fiat_converted_amount c = py_round (float_mul amount (Finite r)) 8"
    by blast
next
  assume a: "crypto_convert upper lower net' s v amount' w0 = (Inr c', w0')"
  from crypto_convert_Inr [OF a]
  show "fst (get_crypto_price upper lower net' s v w0) = Inr (crypto_price_per_unit c')"
    and "crypto_amount c' = amount'"
    by simp_all
  from crypto_convert_Inr [OF a] obtain product where
    p: "py_mul amount' (crypto_price_per_unit c') = Inr product"
      "crypto_converted_amount c' = py_round product 8"
    by blast
  from py_mul_Inr [OF p(1)] p(2)
  show "\<exists>r. (crypto_price_per_unit c' = JFloat r \<or>
            (\<exists>i. crypto_price_per_unit c' = JInt i \<and> binary64 (of_int i) = Finite r) \<or>
            (\<exists>b. crypto_price_per_unit c' = JBool b \<and> r = (if b then 1 else 0))) \<and>
           crypto_converted_amount c' = py_round (float_mul amount' (Finite r)) 8"
    by blast
next
  show "float_mul (Finite a) (Finite b) = binary64 (a * b)" for a b
    by simp
  show "\<exists>k. py_round (Finite x) 8 = binary64 (of_int k / 10 ^ 8) \<and>
          \<bar>of_int k - x * 10 ^ 8\<bar> \<le> 1 / 2 \<and>
          (\<bar>of_int k - x * 10 ^ 8\<bar> = 1 / 2 \<longrightarrow> even k)" for x
    by (rule py_round_nearest)
  show "binary64 (9 / 10) = Finite float_0_9"
    by (rule float_0_9)
  show "float_mul (Finite 100) (Finite float_0_9) = Finite 90"
    by (rule product_100_0_9)
  show "py_round (Finite 90) 8 = Finite 90"
    by (rule round_90)
qed

theorem conversion_math_witness:
  "fst (convert ascii_upper usd_table ''usd'' ''eur'' (Finite 100) cold_start) =
     Inr \<lparr>fiat_from = ''USD'', fiat_to = ''EUR'', fiat_amount = Finite 100,
          fiat_rate = JFloat float_0_9, fiat_converted_amount = Finite 90\<rparr> \<and>
   py_round (float_mul (Finite 100) (Finite float_0_9)) 8 = Finite 90 \<and>
   fst (crypto_convert ascii_upper ascii_lower coingecko ''Foo'' ''USD'' (Finite (1 / 2)) cold_start) =
     Inr \<lparr>crypto_symbol = ''FOO'', crypto_vs_currency = ''usd'', crypto_amount = Finite (1 / 2),
          crypto_price_per_unit = JInt 7, crypto_converted_amount = Finite (7 / 2)\<rparr> \<and>
   py_round (float_mul (Finite (1 / 2)) (Finite 7)) 8 = Finite (7 / 2)"
proof -
  let ?c = "\<lparr>fiat_from = ''USD'', fiat_to = ''EUR'', fiat_amount = Finite 100,
          fiat_rate = JFloat float_0_9, fiat_converted_amount = Finite 90\<rparr>"
  let ?c' = "\<lparr>crypto_symbol = ''FOO'', crypto_vs_currency = ''usd'', crypto_amount = Finite (1 / 2),
          crypto_price_per_unit = JInt 7, crypto_converted_amount = Finite (7 / 2)\<rparr>"
  let ?run = "convert ascii_upper usd_table ''usd'' ''eur'' (Finite 100) cold_start"
  let ?run' = "crypto_convert ascii_upper ascii_lower coingecko ''Foo'' ''USD'' (Finite (1 / 2)) cold_start"
  have a: "?run = (Inr ?c, snd ?run)"
    using convert_usd_eur by (simp add: prod_eq_iff)
  have a': "?run' = (Inr ?c', snd ?run')"
    using crypto_convert_foo by (simp add: prod_eq_iff)
  note m = conversion_math [where upper = ascii_upper and lower = ascii_lower and net = usd_table
      and f = "''usd''" and t = "''eur''" and amount = "Finite 100" and w = cold_start and c = ?c
      and w' = "snd ?run" and net' = coingecko and s = "''Foo''" and v = "''USD''"
      and amount' = "Finite (1 / 2)" and ?w0.0 = cold_start and c' = ?c' and ?w0' = "snd ?run'"]
  from m [THEN conjunct1] a
  have 1: "py_round (float_mul (Finite 100) (Finite float_0_9)) 8 = Finite 90"
    by simp
  from m [THEN conjunct2, THEN conjunct1] a'
  have 2: "py_round (float_mul (Finite (1 / 2)) (Finite 7)) 8 = Finite (7 / 2)"
    by (simp add: float_7)
  from 1 2 convert_usd_eur crypto_convert_foo show ?thesis
    by simp
qed

end
